theory Spec2Isabelle
  imports Main "HOL-Library.Sublist"
begin

text \<open>
  A model of the parts of the chat-agent gateway that sit at its edges: the voice HTTP
  endpoint (voice-api.ts), the Slack and Signal channels (channels/slack.ts,
  channels/signal.ts) and the mail-to-bookmark poller (email-intake.ts). Each TypeScript
  function is a HOL function of the same name. What a function reads from outside (the
  network, the clock, the callbacks of its options) is a parameter; what it does to the
  outside (callbacks made, requests sent) is a list it returns; an exception is the left
  component of a sum. An \<open>async\<close> function is run to its end without interleaving.
\<close>

section \<open>JavaScript strings\<close>

text \<open>
  A JavaScript string is modelled as a \<^typ>\<open>string\<close>: a list of code units, here
  restricted to the code units below 256 (read as Latin-1). \<open>s.startsWith(p)\<close> is
  \<^term>\<open>prefix p s\<close>, \<open>s.slice(n)\<close> with \<open>0 \<le> n\<close> is \<^term>\<open>drop n s\<close>, \<open>s.length\<close> is
  \<^term>\<open>length s\<close>, and a string is truthy when it is not empty.
\<close>

text \<open>
  The characters that \<open>String.prototype.trim\<close> removes and that the regular expression
  class \<open>\s\<close> matches: TAB, LF, VT, FF, CR, SPACE and NO-BREAK SPACE (the white space and
  line terminators of ECMAScript that lie below 256).
\<close>

definition is_js_space :: "char \<Rightarrow> bool" where
  "is_js_space c \<longleftrightarrow> c \<in> set [CHR 0x09, CHR 0x0A, CHR 0x0B, CHR 0x0C, CHR 0x0D, CHR 0x20, CHR 0xA0]"

definition trim :: "string \<Rightarrow> string" where
  "trim s = rev (dropWhile is_js_space (rev (dropWhile is_js_space s)))"

text \<open>An optional string is truthy when it is there and not empty.\<close>

definition truthy :: "string option \<Rightarrow> bool" where
  "truthy v = (case v of None \<Rightarrow> False | Some s \<Rightarrow> s \<noteq> [])"

text \<open>A thrown exception (a rejected promise), with its message.\<close>

datatype js_error = JsError string

section \<open>The voice endpoint (voice-api.ts)\<close>

subsection \<open>The deadline of a run\<close>

definition DEFAULT_TIMEOUT :: int where
  "DEFAULT_TIMEOUT = 300000"

definition MIN_TIMEOUT :: int where
  "MIN_TIMEOUT = 120000"

text \<open>
  The \<open>timeout\<close> field of the request body is an optional number of milliseconds
  (\<open>None\<close> when the field is absent). \<open>timeout || DEFAULT_TIMEOUT\<close> takes the default for
  every falsy value: for the absent field and for the number 0.
\<close>

definition or_default :: "int option \<Rightarrow> int \<Rightarrow> int" where
  "or_default v d = (case v of None \<Rightarrow> d | Some n \<Rightarrow> if n = 0 then d else n)"

definition timeoutMs :: "int option \<Rightarrow> int" where
  "timeoutMs timeout = max (or_default timeout DEFAULT_TIMEOUT) MIN_TIMEOUT"

text \<open>
  \<open>timeoutMs\<close> is the delay handed to \<open>setTimeout\<close>. The timers of Node take a delay
  as it is only when it lies between 1 and \<open>TIMEOUT_MAX\<close> (2 to the 31 minus 1); any
  other delay is set to 1. The deadline of a run is the delay the timer really has.
\<close>

definition TIMEOUT_MAX :: int where
  "TIMEOUT_MAX = 2147483647"

definition setTimeout_delay :: "int \<Rightarrow> int" where
  "setTimeout_delay after = (if 1 \<le> after \<and> after \<le> TIMEOUT_MAX then after else 1)"

definition deadline :: "int option \<Rightarrow> int" where
  "deadline timeout = setTimeout_delay (timeoutMs timeout)"

subsection \<open>The request listener of startVoiceApi\<close>

text \<open>
  What reading and parsing the body of a request gives: \<open>Unreadable\<close> when \<open>readBody\<close>
  rejects (the body is over the cap, the stream fails), when \<open>JSON.parse\<close> throws or when
  the parsed value cannot be destructured; otherwise the two fields \<open>handleRun\<close> reads.
  \<open>input\<close> is \<open>None\<close> when the field is missing or is not a string.
\<close>

datatype run_request_body =
  Unreadable
  | RunRequestBody (input: "string option") (timeout: "int option")

text \<open>
  A request as the listener sees it: the method, the request target \<open>req.url\<close>, the
  \<open>authorization\<close> header (\<open>None\<close> when the request has none) and the body.
\<close>

record http_request =
  http_method :: string
  req_url :: "string option"
  authorization :: "string option"
  body :: run_request_body

text \<open>
  The response: its status code, and whether handling the request called
  \<open>runContainerAgent\<close>.
\<close>

record http_response =
  status :: nat
  agent_started :: bool

text \<open>\<open>handleRun\<close> returns before any agent is started unless \<open>input\<close> is a non-empty string.\<close>

definition input_ok :: "string option \<Rightarrow> bool" where
  "input_ok i = (case i of None \<Rightarrow> False | Some s \<Rightarrow> s \<noteq> [])"

text \<open>
  \<open>const authHeader = req.headers.authorization || '';\<close>
  \<open>const token = authHeader.startsWith('Bearer ') ? authHeader.slice(7) : '';\<close>
\<close>

definition bearer_token :: "string option \<Rightarrow> string" where
  "bearer_token h =
     (let authHeader = (case h of None \<Rightarrow> [] | Some a \<Rightarrow> a)
      in if prefix ''Bearer '' authHeader then drop 7 authHeader else [])"

text \<open>
  What the listener has from outside: the configured \<open>VOICE_API_TOKEN\<close>; the path name
  that \<open>new URL(target, base)\<close> gives for a request target, or the exception it throws
  for a target it refuses; the exception, if any, thrown by the snapshot writes with which
  \<open>handleRun\<close> begins (they stand outside its \<open>try\<close>); and the exception, if any, thrown
  by \<open>buildVoiceGroup\<close> (inside the \<open>try\<close>).
\<close>

record listener_env =
  VOICE_API_TOKEN :: string
  new_URL_pathname :: "string \<Rightarrow> js_error + string"
  snapshot_failure :: "js_error option"
  voice_group_failure :: "js_error option"

text \<open>\<open>req.url || '/'\<close>\<close>

definition request_target :: "http_request \<Rightarrow> string" where
  "request_target req = (if truthy (req_url req) then the (req_url req) else ''/'')"

text \<open>
  The listener. \<open>new URL\<close> is its first statement and stands in no \<open>try\<close>: when it throws,
  the listener throws and no response is sent (\<open>Inl\<close>). On the path of \<open>/api/run\<close>, an
  exception of \<open>readBody\<close>, \<open>JSON.parse\<close> or of the snapshot writes is answered with 400;
  everything else \<open>handleRun\<close> catches itself, and its result is sent with 200.
\<close>

definition requestListener :: "listener_env \<Rightarrow> http_request \<Rightarrow> js_error + http_response" where
  "requestListener env req =
     (case new_URL_pathname env (request_target req) of
        Inl err \<Rightarrow> Inl err
      | Inr pathname \<Rightarrow>
          Inr (if http_method req = ''GET'' \<and> pathname = ''/health''
                 then \<lparr>status = 200, agent_started = False\<rparr>
               else if bearer_token (authorization req) \<noteq> VOICE_API_TOKEN env
                 then \<lparr>status = 401, agent_started = False\<rparr>
               else if http_method req = ''POST'' \<and> pathname = ''/api/run''
                 then (case body req of
                         Unreadable \<Rightarrow> \<lparr>status = 400, agent_started = False\<rparr>
                       | RunRequestBody i t \<Rightarrow>
                           if \<not> input_ok i then \<lparr>status = 200, agent_started = False\<rparr>
                           else if snapshot_failure env \<noteq> None
                             then \<lparr>status = 400, agent_started = False\<rparr>
                           else if voice_group_failure env \<noteq> None
                             then \<lparr>status = 200, agent_started = False\<rparr>
                           else \<lparr>status = 200, agent_started = True\<rparr>)
               else \<lparr>status = 404, agent_started = False\<rparr>))"

subsection \<open>Stripping internal text from a streamed result\<close>

definition OPEN_TAG :: string where
  "OPEN_TAG = ''<internal>''"

definition CLOSE_TAG :: string where
  "CLOSE_TAG = ''</internal>''"

text \<open>The index of the first occurrence of a pattern in a string, if there is one.\<close>

fun find_first :: "'a list \<Rightarrow> 'a list \<Rightarrow> nat option" where
  "find_first pat [] = (if pat = [] then Some 0 else None)"
| "find_first pat (x # xs) =
     (if prefix pat (x # xs) then Some 0 else map_option Suc (find_first pat xs))"

text \<open>
  \<open>raw.replace(/<internal>[\s\S]*?<\/internal>/g, '')\<close>: one pass from left to right. At
  each position the expression matches when the opening marker starts there and a closing
  marker follows it; the lazy \<open>[\s\S]*?\<close> (any code unit) stops at the first closing
  marker. A match is deleted and the scan goes on behind it; where there is no match the
  code unit is kept and the scan goes on at the next position.
\<close>

fun stripInternal :: "string \<Rightarrow> string" where
  "stripInternal [] = []"
| "stripInternal (c # cs) =
     (if prefix OPEN_TAG (c # cs)
      then (case find_first CLOSE_TAG (drop (length OPEN_TAG) (c # cs)) of
              Some k \<Rightarrow> stripInternal (drop (length OPEN_TAG - 1 + k + length CLOSE_TAG) cs)
            | None \<Rightarrow> c # stripInternal cs)
      else c # stripInternal cs)"

text \<open>
  A string contains an internal block when an opening marker occurs in it with a closing
  marker somewhere behind it: the string is \<open>u @ ''<internal>'' @ v @ ''</internal>'' @ w\<close>.
\<close>

fun contains_internal_block :: "string \<Rightarrow> bool" where
  "contains_internal_block [] = False"
| "contains_internal_block (c # cs) =
     ((prefix OPEN_TAG (c # cs) \<and> sublist CLOSE_TAG (drop (length OPEN_TAG) (c # cs)))
      \<or> contains_internal_block cs)"

subsection \<open>The streaming callback of handleRun\<close>

datatype output_status = Success | Error

text \<open>
  \<open>output.result\<close>: absent or falsy and not a string (\<open>NoResult\<close>), a string, or a truthy
  value that is not a string, given with the text \<open>JSON.stringify\<close> makes of it.
\<close>

datatype result_value = NoResult | StringResult string | ValueResult string

record container_output =
  newSessionId :: "string option"
  out_status :: output_status
  out_result :: result_value
  out_error :: "string option"

text \<open>
  The variables the callback closes over: \<open>resolved\<close>, \<open>firstResult\<close>, \<open>agentError\<close>,
  the module's \<open>voiceSessionId\<close>, and what \<open>resolve\<close> was called with (the result and the
  error handed to the HTTP response), \<open>None\<close> while the promise is pending.
\<close>

record run_state =
  resolved :: bool
  firstResult :: "string option"
  agentError :: "string option"
  voiceSessionId :: "string option"
  resolution :: "(string option \<times> string option) option"

definition result_truthy :: "result_value \<Rightarrow> bool" where
  "result_truthy r = (case r of NoResult \<Rightarrow> False | StringResult s \<Rightarrow> s \<noteq> [] | ValueResult j \<Rightarrow> True)"

definition result_raw :: "result_value \<Rightarrow> string" where
  "result_raw r = (case r of NoResult \<Rightarrow> [] | StringResult s \<Rightarrow> s | ValueResult j \<Rightarrow> j)"

definition onOutput :: "run_state \<Rightarrow> container_output \<Rightarrow> run_state" where
  "onOutput st output =
     (let st1 = (if truthy (newSessionId output)
                 then st\<lparr>voiceSessionId := newSessionId output\<rparr> else st)
      in if out_status output = Error then
           (let e = (if truthy (out_error output) then the (out_error output) else ''Agent error'');
                st2 = st1\<lparr>agentError := Some e\<rparr>
            in if \<not> resolved st2
               then st2\<lparr>resolved := True, resolution := Some (None, Some e)\<rparr>
               else st2)
         else if result_truthy (out_result output) \<and> \<not> resolved st1 then
           (let raw = result_raw (out_result output);
                txt = trim (stripInternal raw)
            in if txt \<noteq> []
               then st1\<lparr>firstResult := Some txt, resolved := True,
                        resolution := Some (Some txt, None)\<rparr>
               else st1)
         else st1)"

text \<open>The state in which \<open>handleRun\<close> starts the agent.\<close>

definition run_start :: "string option \<Rightarrow> run_state" where
  "run_start sid =
     \<lparr>resolved = False, firstResult = None, agentError = None, voiceSessionId = sid,
      resolution = None\<rparr>"

subsection \<open>handleRun\<close>

text \<open>
  What happens while \<open>handleRun\<close> waits for its promise: the agent streams an output, the
  timer set to \<open>timeoutMs\<close> fires, or the promise of \<open>runContainerAgent\<close> is rejected with
  a message. Each resolves the promise only if nothing has resolved it before.
\<close>

datatype run_event = Streamed container_output | TimerFired | AgentRejected string

definition on_event :: "run_state \<Rightarrow> run_event \<Rightarrow> run_state" where
  "on_event st ev =
     (case ev of
        Streamed out \<Rightarrow> onOutput st out
      | TimerFired \<Rightarrow>
          if \<not> resolved st
          then st\<lparr>resolved := True, resolution := Some (firstResult st, Some ''Voice API timeout'')\<rparr>
          else st
      | AgentRejected message \<Rightarrow>
          if \<not> resolved st
          then st\<lparr>resolved := True, resolution := Some (firstResult st, Some message)\<rparr>
          else st)"

text \<open>The JSON that \<open>handleRun\<close> returns, without \<open>durationMs\<close>.\<close>

record run_response =
  success :: bool
  response_result :: "string option"
  response_error :: "string option"

text \<open>
  \<open>handleRun\<close> for the \<open>input\<close> of the body, the stored voice session and the events of
  the run, in their order. The result is \<open>None\<close> while the promise is pending. Writing the
  snapshots and building the voice group (reads of the database and writes of files) are
  left out.
\<close>

definition handleRun :: "string option \<Rightarrow> string option \<Rightarrow> run_event list \<Rightarrow> run_response option" where
  "handleRun i sid events =
     (if \<not> input_ok i
      then Some \<lparr>success = False, response_result = None,
                 response_error = Some (''Missing '' @ [CHR 0x22] @ ''input'' @ [CHR 0x22] @ '' string'')\<rparr>
      else (case resolution (foldl on_event (run_start sid) events) of
              None \<Rightarrow> None
            | Some (res, err) \<Rightarrow>
                if truthy err
                then Some \<lparr>success = False, response_result = res, response_error = err\<rparr>
                else Some \<lparr>success = True, response_result = res, response_error = None\<rparr>))"

section \<open>Channels (channels/slack.ts, channels/signal.ts)\<close>

subsection \<open>Callbacks, transport calls and errors\<close>

record new_message =
  msg_id :: string
  chat_jid :: string
  sender :: string
  sender_name :: string
  content :: string
  msg_timestamp :: string
  is_from_me :: bool
  is_bot_message :: bool

text \<open>
  The calls a channel makes on its options, in the order it makes them:
  \<open>onChatMetadata(chatJid, timestamp, name, channel, isGroup)\<close>,
  \<open>onNewContact(chatJid, senderName, isGroup)\<close> and \<open>onMessage(chatJid, message)\<close>.
\<close>

datatype callback =
  OnChatMetadata string string "string option" string bool
  | OnNewContact string string bool
  | OnMessage string new_message

fun is_OnMessage :: "callback \<Rightarrow> bool" where
  "is_OnMessage (OnMessage j m) = True"
| "is_OnMessage other = False"

text \<open>
  The requests a channel puts on its transport: the Slack web API calls
  \<open>conversations.open\<close> and \<open>chat.postMessage\<close>, and the JSON-RPC methods of the Signal
  daemon, \<open>send\<close> with a group id or with a recipient.
\<close>

datatype transport_call =
  ConversationsOpen string
  | PostMessage string string
  | RpcVersion
  | RpcReceive
  | RpcSendGroup string string
  | RpcSendRecipient string string

fun is_send :: "transport_call \<Rightarrow> bool" where
  "is_send (PostMessage c t) = True"
| "is_send (RpcSendGroup g t) = True"
| "is_send (RpcSendRecipient r t) = True"
| "is_send other = False"

subsection \<open>SlackChannel\<close>

text \<open>
  The fields of a \<open>SlackChannel\<close> that its methods read and write. \<open>namespace\<close> is
  \<open>opts.namespace\<close>, \<open>None\<close> when the option is not given.
\<close>

record slack_channel =
  namespace :: "string option"
  slack_connected :: bool
  userCache :: "string \<rightharpoonup> string"
  dmChannelCache :: "string \<rightharpoonup> string"
  botUserId :: "string option"

text \<open>
  A channel as the constructor leaves it, for the namespace given in the options.
\<close>

definition new_SlackChannel :: "string option \<Rightarrow> slack_channel" where
  "new_SlackChannel ns =
     \<lparr>namespace = ns, slack_connected = False, userCache = Map.empty,
      dmChannelCache = Map.empty, botUserId = None\<rparr>"

text \<open>The two prefixes the constructor derives; an empty namespace is falsy.\<close>

definition jid_prefix :: "slack_channel \<Rightarrow> string" where
  "jid_prefix ch =
     (if truthy (namespace ch) then ''slack:'' @ the (namespace ch) @ '':'' else ''slack:'')"

definition channelPrefix :: "slack_channel \<Rightarrow> string" where
  "channelPrefix ch =
     (if truthy (namespace ch) then ''slack:'' @ the (namespace ch) @ '':channel:''
      else ''slack:channel:'')"

definition slack_isConnected :: "slack_channel \<Rightarrow> bool" where
  "slack_isConnected ch = slack_connected ch"

text \<open>
  The code units below 256 that \<open>toUpperCase\<close> changes: the letters a to z, the micro
  sign, and the Latin-1 letters from sharp s to y with diaeresis without the division
  sign.
\<close>

definition changed_by_toUpperCase :: "char \<Rightarrow> bool" where
  "changed_by_toUpperCase c =
     (let n = (of_char c :: nat)
      in (97 \<le> n \<and> n \<le> 122) \<or> n = 181 \<or> (223 \<le> n \<and> n \<le> 246) \<or> (248 \<le> n \<and> n \<le> 255))"

text \<open>\<open>jid.charAt(i)\<close>: the code unit at index i as a string, the empty string out of range.\<close>

definition charAt :: "string \<Rightarrow> nat \<Rightarrow> string" where
  "charAt s i = take 1 (drop i s)"

text \<open>\<open>s === s.toUpperCase()\<close>, for the strings over these code units.\<close>

definition equals_own_upper_case :: "string \<Rightarrow> bool" where
  "equals_own_upper_case s = list_all (\<lambda>c. \<not> changed_by_toUpperCase c) s"

definition ownsJid :: "slack_channel \<Rightarrow> string \<Rightarrow> bool" where
  "ownsJid ch jid =
     (if truthy (namespace ch) then prefix (jid_prefix ch) jid
      else if \<not> prefix ''slack:'' jid then False
      else (let afterSlack = charAt jid 6
            in equals_own_upper_case afterSlack \<or> prefix ''slack:channel:'' jid))"

text \<open>
  What the listener and \<open>sendMessage\<close> get from outside: the registered groups before and
  after \<open>onNewContact\<close> has run, the optional \<open>onNewContact\<close> with its answer, the profile
  names \<open>users.info\<close> returns, the ISO time \<open>slackTsToIso\<close> makes of a Slack timestamp
  (\<open>None\<close> when \<open>toISOString\<close> throws on an invalid date), and the outcomes of
  \<open>conversations.open\<close> and \<open>chat.postMessage\<close>.
\<close>

datatype user_info =
  InfoThrows
  | Info (display_name: "string option") (real_name: "string option") (user_name: "string option")

record slack_env =
  registered :: "string \<Rightarrow> bool"
  onNewContact :: "(string \<Rightarrow> string \<Rightarrow> bool \<Rightarrow> bool) option"
  registered_after :: "string \<Rightarrow> bool"
  users_info :: "string \<Rightarrow> user_info"
  slackTsToIso :: "string \<Rightarrow> string option"
  conversations_open :: "string \<Rightarrow> js_error + string option"
  postMessage :: "string \<Rightarrow> string \<Rightarrow> js_error option"

definition resolveUserName :: "slack_env \<Rightarrow> slack_channel \<Rightarrow> string \<Rightarrow> string \<times> slack_channel" where
  "resolveUserName env ch userId =
     (if truthy (userCache ch userId) then (the (userCache ch userId), ch)
      else (case users_info env userId of
              InfoThrows \<Rightarrow> (userId, ch)
            | Info d r n \<Rightarrow>
                (let name = (if truthy d then the d else if truthy r then the r
                             else if truthy n then the n else userId)
                 in (name, ch\<lparr>userCache := (userCache ch)(userId \<mapsto> name)\<rparr>))))"

text \<open>
  \<open>text.replace(new RegExp(`<@${botUserId}>\\s*`, 'g'), '')\<close> for a bot user id that has
  no character special in a regular expression (Slack ids are capital letters and digits):
  every occurrence of the mention \<open>pat\<close>, with the white space behind it, is deleted.
\<close>

function remove_mentions :: "string \<Rightarrow> string \<Rightarrow> string" where
  "remove_mentions pat [] = []"
| "remove_mentions pat (c # cs) =
     (if prefix pat (c # cs)
      then remove_mentions pat (dropWhile is_js_space (drop (length pat - 1) cs))
      else c # remove_mentions pat cs)"
  by pat_completeness auto
termination
proof (relation "measure (\<lambda>(pat, s). length s)")
  show "wf (measure (\<lambda>(pat, s). length s))" by simp
next
  fix pat :: string and c cs
  have "length (dropWhile is_js_space (drop (length pat - 1) cs)) \<le> length (drop (length pat - 1) cs)"
    by (rule length_dropWhile_le)
  then show "((pat, dropWhile is_js_space (drop (length pat - 1) cs)), (pat, c # cs))
      \<in> measure (\<lambda>(pat, s). length s)"
    by simp
next
  fix pat :: string and c :: char and cs :: string
  show "((pat, cs), (pat, c # cs)) \<in> measure (\<lambda>(pat, s). length s)" by simp
qed

definition stripBotMention :: "slack_channel \<Rightarrow> string \<Rightarrow> string" where
  "stripBotMention ch txt =
     (if \<not> truthy (botUserId ch) then txt
      else trim (remove_mentions (''<@'' @ the (botUserId ch) @ ''>'') txt))"

text \<open>A \<open>message\<close> event of the socket, with the fields the listener reads.\<close>

record slack_event =
  bot_id :: "string option"
  subtype :: "string option"
  user :: "string option"
  channel :: string
  channel_type :: string
  event_text :: "string option"
  ts :: string

text \<open>
  The listener \<open>setupListeners\<close> installs: how it ends, the callbacks it made and the
  channel afterwards.
\<close>

definition slack_listener ::
  "slack_env \<Rightarrow> slack_channel \<Rightarrow> slack_event \<Rightarrow> (js_error + unit) \<times> callback list \<times> slack_channel" where
  "slack_listener env ch msg =
     (if truthy (bot_id msg) \<or> truthy (subtype msg) then (Inr (), [], ch)
      else if \<not> truthy (user msg) then (Inr (), [], ch)
      else if user msg = botUserId ch then (Inr (), [], ch)
      else
        (let userId = the (user msg);
             channelId = channel msg;
             txt = (case event_text msg of None \<Rightarrow> [] | Some t \<Rightarrow> t);
             isDm = (channel_type msg = ''im'');
             chatJid = (if isDm then jid_prefix ch @ userId else channelPrefix ch @ channelId);
             senderJid = jid_prefix ch @ userId;
             ch1 = (if isDm then ch\<lparr>dmChannelCache := (dmChannelCache ch)(userId \<mapsto> channelId)\<rparr>
                    else ch);
             (senderName, ch2) = resolveUserName env ch1 userId
         in case slackTsToIso env (ts msg) of
              None \<Rightarrow> (Inl (JsError ''Invalid time value''), [], ch2)
            | Some timestamp \<Rightarrow>
                (let msgId = ''slack_'' @ ts msg @ ''_'' @ userId;
                     cleanText = (if isDm then txt else stripBotMention ch2 txt);
                     meta = OnChatMetadata chatJid timestamp
                              (if isDm then Some senderName else None) ''slack'' (\<not> isDm);
                     asked = (\<not> registered env chatJid \<and> onNewContact env \<noteq> None);
                     answer = (asked \<and> the (onNewContact env) chatJid
                                 (if isDm then senderName else channelId) (\<not> isDm));
                     contact = (if asked
                                then [OnNewContact chatJid (if isDm then senderName else channelId) (\<not> isDm)]
                                else []);
                     is_registered = (if answer then registered_after env chatJid
                                      else registered env chatJid);
                     newMsg = \<lparr>msg_id = msgId, chat_jid = chatJid, sender = senderJid,
                               sender_name = senderName, content = cleanText,
                               msg_timestamp = timestamp, is_from_me = False,
                               is_bot_message = False\<rparr>
                 in (Inr (), [meta] @ contact @ (if is_registered then [OnMessage chatJid newMsg] else []),
                     ch2))))"

definition resolveChannelId ::
  "slack_env \<Rightarrow> slack_channel \<Rightarrow> string \<Rightarrow> (js_error + string) \<times> transport_call list \<times> slack_channel" where
  "resolveChannelId env ch jid =
     (if prefix (channelPrefix ch) jid then (Inr (drop (length (channelPrefix ch)) jid), [], ch)
      else
        (let userId = drop (length (jid_prefix ch)) jid
         in if truthy (dmChannelCache ch userId) then (Inr (the (dmChannelCache ch userId)), [], ch)
            else (case conversations_open env userId of
                    Inl e \<Rightarrow> (Inl e, [ConversationsOpen userId], ch)
                  | Inr dmChannelId \<Rightarrow>
                      if \<not> truthy dmChannelId
                      then (Inl (JsError (''Failed to open DM with '' @ userId)),
                            [ConversationsOpen userId], ch)
                      else (Inr (the dmChannelId), [ConversationsOpen userId],
                            ch\<lparr>dmChannelCache := (dmChannelCache ch)(userId \<mapsto> the dmChannelId)\<rparr>))))"

text \<open>
  \<open>SlackChannel.sendMessage\<close>: the channel id is resolved outside the \<open>try\<close>; a failed
  \<open>chat.postMessage\<close> is logged and thrown again. Neither \<open>connected\<close> nor any queue is
  looked at.
\<close>

definition slack_sendMessage ::
  "slack_env \<Rightarrow> slack_channel \<Rightarrow> string \<Rightarrow> string \<Rightarrow> (js_error + unit) \<times> transport_call list \<times> slack_channel" where
  "slack_sendMessage env ch jid txt =
     (case resolveChannelId env ch jid of
        (Inl e, calls, ch') \<Rightarrow> (Inl e, calls, ch')
      | (Inr channelId, calls, ch') \<Rightarrow>
          (case postMessage env channelId txt of
             None \<Rightarrow> (Inr (), calls @ [PostMessage channelId txt], ch')
           | Some err \<Rightarrow> (Inl err, calls @ [PostMessage channelId txt], ch')))"

subsection \<open>SignalChannel\<close>

record signal_channel =
  account :: string
  signal_connected :: bool
  pollTimer :: bool
  outgoingQueue :: "(string \<times> string) list"
  flushing :: bool
  polling :: bool
  rpcId :: nat

definition new_SignalChannel :: "string \<Rightarrow> signal_channel" where
  "new_SignalChannel signalAccount =
     \<lparr>account = signalAccount, signal_connected = False, pollTimer = False,
      outgoingQueue = [], flushing = False, polling = False, rpcId = 0\<rparr>"

definition signal_isConnected :: "signal_channel \<Rightarrow> bool" where
  "signal_isConnected ch = signal_connected ch"

definition signal_ownsJid :: "string \<Rightarrow> bool" where
  "signal_ownsJid jid = prefix ''sig:'' jid"

text \<open>
  The entries of a \<open>receive\<close> result. A field that may be missing is an option; the
  numbers are milliseconds.
\<close>

record group_info =
  groupId :: string

record data_message =
  data_text :: "string option"
  data_timestamp :: "int option"
  data_groupInfo :: "group_info option"

record sent_message =
  sent_text :: "string option"
  sent_timestamp :: "int option"
  destination :: "string option"
  sent_groupInfo :: "group_info option"

record sync_message =
  sentMessage :: "sent_message option"

record envelope =
  source :: "string option"
  sourceName :: "string option"
  sourceNumber :: "string option"
  env_timestamp :: "int option"
  dataMessage :: "data_message option"
  syncMessage :: "sync_message option"

record signal_entry =
  entry_envelope :: "envelope option"

text \<open>
  What the channel gets from outside. \<open>rpc_result n\<close> tells whether the JSON-RPC call
  with id \<open>n\<close> yields a result (\<open>rpc\<close> returns \<open>null\<close> on an HTTP error, a JSON-RPC error,
  a missing result and a failed fetch); \<open>receive_result n\<close> is the list of entries when
  that call is a \<open>receive\<close>. \<open>registered_groups\<close> tells whether \<open>registeredGroups()\<close> has
  a group for a chat, \<open>now\<close> is \<open>Date.now()\<close>, \<open>toISOString\<close> the ISO time of a number of
  milliseconds (\<open>None\<close> when the date is invalid and \<open>toISOString\<close> throws), and
  \<open>number_text\<close> the decimal text of a number in a template string.
\<close>

record signal_env =
  rpc_result :: "nat \<Rightarrow> bool"
  receive_result :: "nat \<Rightarrow> signal_entry list"
  registered_groups :: "string \<Rightarrow> bool"
  now :: int
  toISOString :: "int \<Rightarrow> string option"
  number_text :: "int \<Rightarrow> string"

text \<open>
  \<open>rpc(method, params)\<close>: the id is incremented, the request goes out, and the answer is
  whether a result came back.
\<close>

definition rpc :: "signal_env \<Rightarrow> signal_channel \<Rightarrow> transport_call \<Rightarrow> bool \<times> transport_call list \<times> signal_channel" where
  "rpc env ch request =
     (let n = rpcId ch + 1 in (rpc_result env n, [request], ch\<lparr>rpcId := n\<rparr>))"

text \<open>\<open>s.replace(pat, '')\<close> with a string pattern: the first occurrence is deleted.\<close>

definition delete_first :: "string \<Rightarrow> string \<Rightarrow> string" where
  "delete_first pat s =
     (case find_first pat s of None \<Rightarrow> s | Some k \<Rightarrow> take k s @ drop (k + length pat) s)"

definition send_request :: "string \<times> string \<Rightarrow> transport_call" where
  "send_request item =
     (case item of (jid, txt) \<Rightarrow>
        if prefix ''sig:group:'' jid then RpcSendGroup (delete_first ''sig:group:'' jid) txt
        else RpcSendRecipient (delete_first ''sig:'' jid) txt)"

definition sendViaRpc ::
  "signal_env \<Rightarrow> signal_channel \<Rightarrow> string \<Rightarrow> string \<Rightarrow> (js_error + unit) \<times> transport_call list \<times> signal_channel" where
  "sendViaRpc env ch jid txt =
     (case rpc env ch (send_request (jid, txt)) of
        (ok, calls, ch') \<Rightarrow>
          if ok then (Inr (), calls, ch')
          else (Inl (JsError (''Signal send failed for '' @ jid)), calls, ch'))"

text \<open>
  \<open>SignalChannel.sendMessage\<close>: queued while the channel is not connected; sent when it
  is, and queued when that send throws.
\<close>

definition signal_sendMessage ::
  "signal_env \<Rightarrow> signal_channel \<Rightarrow> string \<Rightarrow> string \<Rightarrow> (js_error + unit) \<times> transport_call list \<times> signal_channel" where
  "signal_sendMessage env ch jid txt =
     (if \<not> signal_connected ch
      then (Inr (), [], ch\<lparr>outgoingQueue := outgoingQueue ch @ [(jid, txt)]\<rparr>)
      else (case sendViaRpc env ch jid txt of
              (Inr u, calls, ch') \<Rightarrow> (Inr (), calls, ch')
            | (Inl err, calls, ch') \<Rightarrow>
                (Inr (), calls, ch'\<lparr>outgoingQueue := outgoingQueue ch' @ [(jid, txt)]\<rparr>)))"

text \<open>
  The \<open>while\<close> loop of \<open>flushOutgoingQueue\<close>: while the queue is not empty, its head is
  shifted out and sent; when the send throws, the loop is left with the rest of the queue
  in place and the shifted item gone.
\<close>

function flush_loop ::
  "signal_env \<Rightarrow> signal_channel \<Rightarrow> (js_error + unit) \<times> transport_call list \<times> signal_channel" where
  "flush_loop env ch =
     (case outgoingQueue ch of
        [] \<Rightarrow> (Inr (), [], ch)
      | item # items \<Rightarrow>
          (case sendViaRpc env (ch\<lparr>outgoingQueue := items\<rparr>) (fst item) (snd item) of
             (Inl err, calls, ch') \<Rightarrow> (Inl err, calls, ch')
           | (Inr u, calls, ch') \<Rightarrow>
               (case flush_loop env ch' of
                  (r, calls', ch'') \<Rightarrow> (r, calls @ calls', ch''))))"
  by pat_completeness auto
termination
proof (relation "measure (\<lambda>(env, ch). length (outgoingQueue ch))")
  show "wf (measure (\<lambda>(env, ch). length (outgoingQueue ch)))" by simp
next
  fix env :: signal_env and ch :: signal_channel and item items x u rest calls ch'
  assume q: "outgoingQueue ch = item # items"
    and s: "(x, rest) = sendViaRpc env (ch\<lparr>outgoingQueue := items\<rparr>) (fst item) (snd item)"
    and r: "(calls, ch') = rest"
  from s r have "outgoingQueue ch' = items"
    by (auto simp: sendViaRpc_def rpc_def Let_def split: if_splits)
  with q show "((env, ch'), (env, ch)) \<in> measure (\<lambda>(env, ch). length (outgoingQueue ch))"
    by simp
qed

declare flush_loop.simps [simp del]

definition flushOutgoingQueue ::
  "signal_env \<Rightarrow> signal_channel \<Rightarrow> (js_error + unit) \<times> transport_call list \<times> signal_channel" where
  "flushOutgoingQueue env ch =
     (if flushing ch \<or> outgoingQueue ch = [] then (Inr (), [], ch)
      else (case flush_loop env (ch\<lparr>flushing := True\<rparr>) of
              (r, calls, ch') \<Rightarrow> (r, calls, ch'\<lparr>flushing := False\<rparr>)))"

text \<open>
  \<open>SignalChannel.connect\<close>: throws when the \<open>version\<close> call yields nothing; otherwise the
  channel is connected, the queue is flushed (a failed flush is logged, not thrown) and
  the poll timer is started. The flush, which \<open>connect\<close> starts without waiting for it, is
  run here to its end before anything else happens.
\<close>

definition signal_connect ::
  "signal_env \<Rightarrow> signal_channel \<Rightarrow> (js_error + unit) \<times> transport_call list \<times> signal_channel" where
  "signal_connect env ch =
     (case rpc env ch RpcVersion of
        (ok, calls, ch1) \<Rightarrow>
          if \<not> ok then (Inl (JsError ''Cannot reach signal-cli JSON-RPC''), calls, ch1)
          else (case flushOutgoingQueue env (ch1\<lparr>signal_connected := True\<rparr>) of
                  (r, calls', ch2) \<Rightarrow> (Inr (), calls @ calls', ch2\<lparr>pollTimer := True\<rparr>)))"

definition signal_disconnect :: "signal_channel \<Rightarrow> signal_channel" where
  "signal_disconnect ch = ch\<lparr>signal_connected := False, pollTimer := False\<rparr>"

text \<open>The argument of \<open>processInbound\<close>.\<close>

record inbound =
  in_source :: string
  in_sourceName :: "string option"
  in_message :: string
  in_timestamp :: int
  in_groupId :: "string option"
  isFromMe :: "bool option"

text \<open>The chat a message belongs to: its group, or else its source.\<close>

definition inbound_chatJid :: "inbound \<Rightarrow> string" where
  "inbound_chatJid msg =
     (if truthy (in_groupId msg) then ''sig:group:'' @ the (in_groupId msg)
      else ''sig:'' @ in_source msg)"

definition processInbound ::
  "signal_env \<Rightarrow> signal_channel \<Rightarrow> inbound \<Rightarrow> (js_error + unit) \<times> callback list" where
  "processInbound env ch msg =
     (let isGroup = truthy (in_groupId msg);
          chatJid = inbound_chatJid msg
      in case toISOString env (in_timestamp msg) of
           None \<Rightarrow> (Inl (JsError ''Invalid time value''), [])
         | Some timestamp \<Rightarrow>
             (let msgId = ''sig_'' @ number_text env (in_timestamp msg) @ ''_'' @ in_source msg;
                  senderName = (if truthy (in_sourceName msg) then the (in_sourceName msg)
                                else in_source msg);
                  fromMe = (isFromMe msg = Some True \<or> in_source msg = account ch);
                  meta = OnChatMetadata chatJid timestamp
                           (if isGroup then None else Some senderName) ''signal'' isGroup;
                  newMsg = \<lparr>msg_id = msgId, chat_jid = chatJid, sender = in_source msg,
                            sender_name = senderName, content = in_message msg,
                            msg_timestamp = timestamp, is_from_me = fromMe,
                            is_bot_message = fromMe\<rparr>
              in (Inr (), meta # (if registered_groups env chatJid
                                  then [OnMessage chatJid newMsg] else []))))"

text \<open>\<open>a || b || c\<close> on optional numbers: the first that is present and not 0.\<close>

definition first_timestamp :: "int option \<Rightarrow> int option \<Rightarrow> int \<Rightarrow> int" where
  "first_timestamp a b c = or_default a (or_default b c)"

definition data_inbound :: "signal_env \<Rightarrow> envelope \<Rightarrow> data_message \<Rightarrow> inbound" where
  "data_inbound env e d =
     \<lparr>in_source = (if truthy (source e) then the (source e)
                   else if truthy (sourceNumber e) then the (sourceNumber e) else []),
      in_sourceName = sourceName e,
      in_message = the (data_text d),
      in_timestamp = first_timestamp (data_timestamp d) (env_timestamp e) (now env),
      in_groupId = map_option groupId (data_groupInfo d),
      isFromMe = None\<rparr>"

definition sync_inbound :: "signal_env \<Rightarrow> signal_channel \<Rightarrow> envelope \<Rightarrow> sent_message \<Rightarrow> inbound" where
  "sync_inbound env ch e sent =
     \<lparr>in_source = account ch,
      in_sourceName = None,
      in_message = the (sent_text sent),
      in_timestamp = first_timestamp (sent_timestamp sent) (env_timestamp e) (now env),
      in_groupId = map_option groupId (sent_groupInfo sent),
      isFromMe = Some True\<rparr>"

text \<open>\<open>envelope.dataMessage?.message\<close> and \<open>envelope.syncMessage?.sentMessage?.message\<close>.\<close>

definition has_data_text :: "envelope \<Rightarrow> bool" where
  "has_data_text e = (case dataMessage e of None \<Rightarrow> False | Some d \<Rightarrow> truthy (data_text d))"

definition sent_of :: "envelope \<Rightarrow> sent_message option" where
  "sent_of e = (case syncMessage e of None \<Rightarrow> None | Some s \<Rightarrow> sentMessage s)"

definition has_sent_text :: "envelope \<Rightarrow> bool" where
  "has_sent_text e = (case sent_of e of None \<Rightarrow> False | Some sent \<Rightarrow> truthy (sent_text sent))"

definition handleEntry ::
  "signal_env \<Rightarrow> signal_channel \<Rightarrow> signal_entry \<Rightarrow> (js_error + unit) \<times> callback list" where
  "handleEntry env ch entry =
     (case entry_envelope entry of
        None \<Rightarrow> (Inr (), [])
      | Some e \<Rightarrow>
          (case (if has_data_text e
                 then processInbound env ch (data_inbound env e (the (dataMessage e)))
                 else (Inr (), [])) of
             (Inl err, cbs) \<Rightarrow> (Inl err, cbs)
           | (Inr u, cbs) \<Rightarrow>
               if has_sent_text e
               then (case processInbound env ch (sync_inbound env ch e (the (sent_of e))) of
                       (r, cbs') \<Rightarrow> (r, cbs @ cbs'))
               else (Inr (), cbs)))"

text \<open>The \<open>for\<close> loop of \<open>poll\<close> over the entries; an exception ends it.\<close>

fun handle_entries ::
  "signal_env \<Rightarrow> signal_channel \<Rightarrow> signal_entry list \<Rightarrow> (js_error + unit) \<times> callback list" where
  "handle_entries env ch [] = (Inr (), [])"
| "handle_entries env ch (entry # entries) =
     (case handleEntry env ch entry of
        (Inl err, cbs) \<Rightarrow> (Inl err, cbs)
      | (Inr u, cbs) \<Rightarrow>
          (case handle_entries env ch entries of (r, cbs') \<Rightarrow> (r, cbs @ cbs')))"

definition poll ::
  "signal_env \<Rightarrow> signal_channel \<Rightarrow> (js_error + unit) \<times> callback list \<times> signal_channel" where
  "poll env ch =
     (if polling ch then (Inr (), [], ch)
      else (case rpc env (ch\<lparr>polling := True\<rparr>) RpcReceive of
              (ok, calls, ch') \<Rightarrow>
                if \<not> ok \<or> receive_result env (rpcId ch') = []
                then (Inr (), [], ch'\<lparr>polling := False\<rparr>)
                else (case handle_entries env ch' (receive_result env (rpcId ch')) of
                        (r, cbs) \<Rightarrow> (r, cbs, ch'\<lparr>polling := False\<rparr>))))"

section \<open>The mail-to-bookmark poller (email-intake.ts)\<close>

subsection \<open>extractUrls\<close>

definition MIN_URL_LENGTH :: nat where
  "MIN_URL_LENGTH = 15"

text \<open>
  Matching with the \<open>i\<close> flag: a letter of a pattern matches its two cases. The patterns
  here are written in lower case, and the text is compared with its capital letters
  A to Z lowered.
\<close>

definition lower :: "char \<Rightarrow> char" where
  "lower c = (let n = (of_char c :: nat) in if 65 \<le> n \<and> n \<le> 90 then char_of (n + 32) else c)"

text \<open>
  The patterns of \<open>REJECT_PATTERNS\<close>: \<open>Contains p\<close> is \<open>/p/i\<close> for a literal \<open>p\<close>,
  \<open>ContainsThen p q\<close> is \<open>/p.*q/i\<close>, and \<open>StartsWith p\<close> is \<open>/^p/i\<close>.
\<close>

datatype reject_pattern = Contains string | ContainsThen string string | StartsWith string

definition REJECT_PATTERNS :: "reject_pattern list" where
  "REJECT_PATTERNS =
     [Contains ''teams.microsoft.com'',
      Contains ''aka.ms/'',
      Contains ''google.com/calendar'',
      Contains ''dialin.teams'',
      Contains ''unsubscribe'',
      ContainsThen ''manage'' ''preferences'',
      Contains ''tracking'',
      Contains ''click.'',
      Contains ''open.'',
      StartsWith ''tel:'',
      StartsWith ''mailto:'']"

text \<open>The line terminators below 256, which \<open>.\<close> does not match.\<close>

definition is_line_terminator :: "char \<Rightarrow> bool" where
  "is_line_terminator c \<longleftrightarrow> c = CHR 0x0A \<or> c = CHR 0x0D"

text \<open>\<open>p.*q\<close> somewhere in a string: \<open>p\<close>, then \<open>q\<close> later on the same line.\<close>

fun contains_then :: "string \<Rightarrow> string \<Rightarrow> string \<Rightarrow> bool" where
  "contains_then p q [] = False"
| "contains_then p q (c # cs) =
     ((prefix p (c # cs)
        \<and> find_first q (takeWhile (\<lambda>x. \<not> is_line_terminator x) (drop (length p) (c # cs))) \<noteq> None)
      \<or> contains_then p q cs)"

text \<open>\<open>p.test(url)\<close>\<close>

fun test :: "reject_pattern \<Rightarrow> string \<Rightarrow> bool" where
  "test (Contains p) url = (find_first p (map lower url) \<noteq> None)"
| "test (ContainsThen p q) url = contains_then p q (map lower url)"
| "test (StartsWith p) url = prefix p (map lower url)"

text \<open>The class \<open>[^\s<>"')\]},;]\<close> of the URL expression.\<close>

definition url_char :: "char \<Rightarrow> bool" where
  "url_char c \<longleftrightarrow>
     \<not> is_js_space c
     \<and> c \<notin> set [CHR ''<'', CHR ''>'', CHR 0x22, CHR 0x27, CHR '')'', CHR '']'', CHR ''}'',
                 CHR '','', CHR '';'']"

text \<open>
  \<open>/https?:\/\/[^\s<>"')\]},;]+/gi\<close> at the start of a string: the length of the match,
  if the expression matches there. The class is matched greedily and needs one character.
\<close>

definition url_match :: "string \<Rightarrow> nat option" where
  "url_match s =
     (let l = map lower s;
          n = (if prefix ''https://'' l then 8 else if prefix ''http://'' l then 7 else 0);
          m = length (takeWhile url_char (drop n s))
      in if n = 0 \<or> m = 0 then None else Some (n + m))"

text \<open>\<open>text.match(urlRegex) || []\<close>: all matches from left to right, none overlapping.\<close>

fun match_all :: "string \<Rightarrow> string list" where
  "match_all [] = []"
| "match_all (c # cs) =
     (case url_match (c # cs) of
        None \<Rightarrow> match_all cs
      | Some n \<Rightarrow> take n (c # cs) # match_all (drop (n - 1) cs))"

text \<open>\<open>url.replace(/[.)>,;:!?]+$/, '')\<close>\<close>

definition is_trailing_punctuation :: "char \<Rightarrow> bool" where
  "is_trailing_punctuation c \<longleftrightarrow>
     c \<in> set [CHR ''.'', CHR '')'', CHR ''>'', CHR '','', CHR '';'', CHR '':'', CHR ''!'', CHR ''?'']"

definition strip_trailing :: "string \<Rightarrow> string" where
  "strip_trailing url = rev (dropWhile is_trailing_punctuation (rev url))"

text \<open>
  The body of the \<open>for\<close> loop, on the pair of \<open>seen\<close> (a set that keeps insertion order) and
  \<open>results\<close>.
\<close>

definition extract_step :: "string list \<times> string list \<Rightarrow> string \<Rightarrow> string list \<times> string list" where
  "extract_step acc m =
     (case acc of (seen, results) \<Rightarrow>
        (let url = strip_trailing m
         in if length url < MIN_URL_LENGTH then (seen, results)
            else if list_ex (\<lambda>p. test p url) REJECT_PATTERNS then (seen, results)
            else if url \<in> set seen then (seen, results)
            else (seen @ [url], results @ [url])))"

definition extractUrls :: "string \<Rightarrow> string list" where
  "extractUrls txt = snd (foldl extract_step ([], []) (match_all txt))"

subsection \<open>extractBodyText\<close>

record body_data =
  data :: "string option"

record message_part =
  mimeType :: "string option"
  part_body :: "body_data option"

record payload =
  payload_body :: "body_data option"
  parts :: "message_part list option"

record message_detail =
  detail_body :: "string option"
  detail_snippet :: "string option"
  detail_payload :: "payload option"

definition part_data :: "message_part \<Rightarrow> string option" where
  "part_data p = (case part_body p of None \<Rightarrow> None | Some b \<Rightarrow> data b)"

text \<open>The first part of a MIME type that has data, as the two \<open>for\<close> loops look for it.\<close>

definition first_part :: "string \<Rightarrow> message_part list \<Rightarrow> message_part option" where
  "first_part mime ps = find (\<lambda>p. mimeType p = Some mime \<and> truthy (part_data p)) ps"

text \<open>
  \<open>decodeBase64Url\<close> (the base64 and UTF-8 decoding of \<open>Buffer\<close>) is the parameter
  \<open>decode\<close>.
\<close>

definition extractBodyText :: "(string \<Rightarrow> string) \<Rightarrow> message_detail \<Rightarrow> string" where
  "extractBodyText decode detail =
     (let payload_data = (case detail_payload detail of None \<Rightarrow> None
                          | Some p \<Rightarrow> (case payload_body p of None \<Rightarrow> None | Some b \<Rightarrow> data b));
          payload_parts = (case detail_payload detail of None \<Rightarrow> None | Some p \<Rightarrow> parts p);
          snippet = (if truthy (detail_snippet detail) then the (detail_snippet detail) else [])
      in if truthy (detail_body detail) then the (detail_body detail)
         else if truthy payload_data then decode (the payload_data)
         else (case payload_parts of
                 None \<Rightarrow> snippet
               | Some ps \<Rightarrow>
                   (case first_part ''text/plain'' ps of
                      Some p \<Rightarrow> decode (the (part_data p))
                    | None \<Rightarrow>
                        (case first_part ''text/html'' ps of
                           Some p \<Rightarrow> decode (the (part_data p))
                         | None \<Rightarrow> snippet))))"

subsection \<open>bookmarkViaRelay and pollEmailIntake\<close>

text \<open>
  What a POST to the relay comes to: \<open>Unreachable\<close> when \<open>fetch\<close> or \<open>resp.json()\<close> throws
  (no connection, the 90 s deadline, a body that is not JSON), otherwise the JSON reply,
  with or without an \<open>error\<close> field.
\<close>

datatype relay_reply = Unreachable | Replied bool

fun bookmarkViaRelay :: "relay_reply \<Rightarrow> bool" where
  "bookmarkViaRelay Unreachable = False"
| "bookmarkViaRelay (Replied has_error) = True"

record gog_message =
  gog_id :: string
  threadId :: string
  subject :: "string option"

text \<open>
  What the outside does while one message is processed: what \<open>gmail get\<close> gives (\<open>None\<close>
  when \<open>callGog\<close> or \<open>JSON.parse\<close> throws), what the relay replies for a URL of this
  message, and whether \<open>gmail thread modify\<close> succeeds.
\<close>

record message_env =
  get_result :: "message_detail option"
  relay_result :: "string \<Rightarrow> relay_reply"
  modify_succeeds :: bool

text \<open>
  The mailbox as the poller changes it: the threads that carry the label
  \<open>nanoclaw-processed\<close> and the threads in the inbox.
\<close>

record mailbox =
  processed :: "string set"
  inbox :: "string set"

text \<open>The commands and requests the poller issues.\<close>

datatype action = GmailGet string | RelayPost string | ThreadModify string

text \<open>
  The inner \<open>for\<close> loop over the URLs: \<open>relayFailed\<close> and the POSTs made; the first failed
  call breaks the loop.
\<close>

fun relay_loop :: "(string \<Rightarrow> relay_reply) \<Rightarrow> string list \<Rightarrow> bool \<times> action list" where
  "relay_loop reply [] = (False, [])"
| "relay_loop reply (url # urls) =
     (if \<not> bookmarkViaRelay (reply url) then (True, [RelayPost url])
      else (case relay_loop reply urls of (relayFailed, posts) \<Rightarrow> (relayFailed, RelayPost url # posts)))"

text \<open>The body of the outer \<open>for\<close> loop, for one message.\<close>

definition process_message ::
  "(string \<Rightarrow> string) \<Rightarrow> mailbox \<Rightarrow> gog_message \<times> message_env \<Rightarrow> mailbox \<times> action list" where
  "process_message decode mb m =
     (case m of (msg, env) \<Rightarrow>
        (case get_result env of
           None \<Rightarrow> (mb, [GmailGet (gog_id msg)])
         | Some detail \<Rightarrow>
             (let urls = extractUrls (extractBodyText decode detail);
                  (relayFailed, posts) = relay_loop (relay_result env) urls
              in if relayFailed then (mb, GmailGet (gog_id msg) # posts)
                 else if modify_succeeds env
                   then (mb\<lparr>processed := insert (threadId msg) (processed mb),
                            inbox := inbox mb - {threadId msg}\<rparr>,
                         GmailGet (gog_id msg) # posts @ [ThreadModify (threadId msg)])
                   else (mb, GmailGet (gog_id msg) # posts @ [ThreadModify (threadId msg)]))))"

fun process_messages ::
  "(string \<Rightarrow> string) \<Rightarrow> mailbox \<Rightarrow> (gog_message \<times> message_env) list \<Rightarrow> mailbox \<times> action list" where
  "process_messages decode mb [] = (mb, [])"
| "process_messages decode mb (m # ms) =
     (case process_message decode mb m of
        (mb', acts) \<Rightarrow>
          (case process_messages decode mb' ms of (mb'', acts') \<Rightarrow> (mb'', acts @ acts')))"

text \<open>
  What \<open>gmail list\<close> gives: \<open>ListFails\<close> when \<open>callGog\<close> or \<open>JSON.parse\<close> throws,
  \<open>NotAnArray\<close> for JSON that is no array, otherwise the messages, each with what the
  outside does while it is processed.
\<close>

datatype list_result =
  ListFails
  | NotAnArray
  | Messages "(gog_message \<times> message_env) list"

definition pollEmailIntake :: "(string \<Rightarrow> string) \<Rightarrow> mailbox \<Rightarrow> list_result \<Rightarrow> mailbox \<times> action list" where
  "pollEmailIntake decode mb listed =
     (case listed of
        ListFails \<Rightarrow> (mb, [])
      | NotAnArray \<Rightarrow> (mb, [])
      | Messages ms \<Rightarrow> process_messages decode mb ms)"

section \<open>Properties of the voice endpoint\<close>

text \<open>
  C9 (as amended). For a requested timeout that is absent or at most 2147483647 ms, the
  deadline of a run is the maximum of the 120000 ms floor and the requested timeout, where
  the 300000 ms default stands in for a timeout that is absent or zero; so such a run
  has no deadline below 120000 ms.
\<close>

theorem deadline_floor:
  "(case t of None \<Rightarrow> True | Some n \<Rightarrow> n \<le> 2147483647)
   \<longrightarrow> deadline t = max (case t of None \<Rightarrow> 300000 | Some n \<Rightarrow> if n = 0 then 300000 else n) 120000
       \<and> 120000 \<le> deadline t"
  by (simp add: deadline_def setTimeout_delay_def TIMEOUT_MAX_def timeoutMs_def or_default_def
      DEFAULT_TIMEOUT_def MIN_TIMEOUT_def split: option.split)

theorem deadline_floor_witness:
  "deadline (Some 150000) = 150000 \<and> deadline (Some 5000) = 120000 \<and> deadline None = 300000"
  using deadline_floor [of "Some 150000"] deadline_floor [of "Some 5000"] deadline_floor [of None]
  by simp

text \<open>
  C9 as stated fails for a requested timeout of 0: the maximum of the requested timeout
  and the floor is 120000, the deadline is 300000. It also fails for a requested timeout
  of 2147483648: the timer is set to 1 ms.
\<close>

theorem deadline_counterexample:
  "deadline (Some 0) = 300000 \<and> deadline (Some 0) \<noteq> max 0 MIN_TIMEOUT
   \<and> deadline (Some 2147483648) = 1 \<and> deadline (Some 2147483648) < 120000"
  by (simp add: deadline_def setTimeout_delay_def TIMEOUT_MAX_def timeoutMs_def or_default_def
      DEFAULT_TIMEOUT_def MIN_TIMEOUT_def)




lemma bearer_token_eq:
  assumes "bearer_token h = tok" "tok \<noteq> []"
  shows "h = Some (''Bearer '' @ tok)"
proof (cases h)
  case None
  with assms show ?thesis by (simp add: bearer_token_def)
next
  case (Some a)
  with assms have p: "prefix ''Bearer '' a" and d: "drop 7 a = tok"
    by (auto simp: bearer_token_def Let_def split: if_splits)
  from p obtain r where "a = ''Bearer '' @ r" by (auto simp: prefix_def)
  with d Some show ?thesis by simp
qed

text \<open>
  What the listener does hold to: with a configured token that is not empty, a request
  other than a GET to \<open>/health\<close> whose \<open>Authorization\<close> header is not \<open>Bearer\<close> followed by
  that token never starts an agent, and is answered with 401 if its target is accepted by
  \<open>new URL\<close>.
\<close>

lemma unauthorized_never_starts_agent:
  assumes "VOICE_API_TOKEN env \<noteq> []"
    and "authorization req \<noteq> Some (''Bearer '' @ VOICE_API_TOKEN env)"
    and "\<not> (http_method req = ''GET'' \<and> new_URL_pathname env (request_target req) = Inr ''/health'')"
  shows "requestListener env req = Inr \<lparr>status = 401, agent_started = False\<rparr>
      \<or> (\<exists>err. new_URL_pathname env (request_target req) = Inl err \<and> requestListener env req = Inl err)"
proof -
  have n: "bearer_token (authorization req) \<noteq> VOICE_API_TOKEN env"
    using assms(1,2) bearer_token_eq by blast
  show ?thesis
  proof (cases "new_URL_pathname env (request_target req)")
    case (Inl err)
    then show ?thesis by (simp add: requestListener_def)
  next
    case (Inr p)
    with assms(3) n show ?thesis by (auto simp: requestListener_def)
  qed
qed

text \<open>
  C10. The claim asks for a 401 for every request that is not a GET to \<open>/health\<close> and
  does not carry the configured, non-empty token. The request \<open>GET //\<close> without an
  \<open>Authorization\<close> header is such a request, and the listener throws on its target before
  it comes to the check of the token: no response is sent. (With the empty token, the
  default, a POST to \<open>/api/run\<close> without the header passes the check and starts an agent,
  as the claim says.)
\<close>

theorem unauthorized_unparsed_target:
  "requestListener
     \<lparr>VOICE_API_TOKEN = ''s3cret'',
      new_URL_pathname = (\<lambda>u. if u = ''//'' then Inl (JsError ''Invalid URL'') else Inr u),
      snapshot_failure = None, voice_group_failure = None\<rparr>
     \<lparr>http_method = ''GET'', req_url = Some ''//'', authorization = None, body = Unreadable\<rparr>
     = Inl (JsError ''Invalid URL'')
   \<and> requestListener
     \<lparr>VOICE_API_TOKEN = [],
      new_URL_pathname = (\<lambda>u. if u = ''//'' then Inl (JsError ''Invalid URL'') else Inr u),
      snapshot_failure = None, voice_group_failure = None\<rparr>
     \<lparr>http_method = ''POST'', req_url = Some ''/api/run'', authorization = None,
      body = RunRequestBody (Some ''hello'') None\<rparr>
     = Inr \<lparr>status = 200, agent_started = True\<rparr>"
  by (simp add: requestListener_def request_target_def truthy_def bearer_token_def input_ok_def)

subsection \<open>What one pass of stripInternal removes\<close>

lemma find_first_None_iff: "find_first pat s = None \<longleftrightarrow> \<not> sublist pat s"
proof (induction s)
  case Nil
  then show ?case by simp
next
  case (Cons x xs)
  then show ?case by (simp add: sublist_Cons_right)
qed

lemma prefix_append_short:
  assumes "prefix pat (a @ b)" "length pat \<le> length a"
  shows "prefix pat a"
proof -
  from assms(1) have "pat = take (length pat) (a @ b)"
    by (metis append_eq_conv_conj prefix_def)
  with assms(2) have "pat = take (length pat) a" by simp
  then show ?thesis by (metis take_is_prefix)
qed

lemma no_early_prefix:
  assumes "\<not> sublist pat ((x # c) @ butlast pat)" "pat \<noteq> []"
  shows "\<not> prefix pat (x # c @ pat @ rest)"
proof
  assume p: "prefix pat (x # c @ pat @ rest)"
  have "x # c @ pat @ rest = ((x # c) @ butlast pat) @ ([last pat] @ rest)"
    using assms(2) by simp
  moreover have "length pat \<le> length ((x # c) @ butlast pat)" by simp
  ultimately have "prefix pat ((x # c) @ butlast pat)"
    using p prefix_append_short by metis
  then show False using assms(1) by blast
qed

lemma find_first_here: "pat \<noteq> [] \<Longrightarrow> find_first pat (pat @ rest) = Some 0"
  by (cases pat) simp_all

lemma find_first_at:
  assumes "\<not> sublist pat (c @ butlast pat)" "pat \<noteq> []"
  shows "find_first pat (c @ pat @ rest) = Some (length c)"
  using assms(1)
proof (induction c)
  case Nil
  show ?case using assms(2) by (simp add: find_first_here)
next
  case (Cons x c)
  have np: "\<not> prefix pat (x # c @ pat @ rest)"
    using Cons.prems assms(2) by (rule no_early_prefix)
  have "\<not> sublist pat (c @ butlast pat)"
    using Cons.prems by (simp add: sublist_Cons_right)
  then have ih: "find_first pat (c @ pat @ rest) = Some (length c)"
    by (rule Cons.IH)
  have "find_first pat (x # c @ pat @ rest) = map_option Suc (find_first pat (c @ pat @ rest))"
    using np by (simp only: find_first.simps if_False)
  then show ?case by (simp add: ih)
qed

lemma contains_internal_block_iff:
  "contains_internal_block s \<longleftrightarrow> (\<exists>u v w. s = u @ OPEN_TAG @ v @ CLOSE_TAG @ w)"
proof (induction s)
  case Nil
  then show ?case by (simp add: OPEN_TAG_def)
next
  case (Cons c cs)
  show ?case
  proof
    assume "contains_internal_block (c # cs)"
    then consider (here) "prefix OPEN_TAG (c # cs)" "sublist CLOSE_TAG (drop (length OPEN_TAG) (c # cs))"
      | (later) "contains_internal_block cs" by auto
    then show "\<exists>u v w. c # cs = u @ OPEN_TAG @ v @ CLOSE_TAG @ w"
    proof cases
      case here
      from here(1) obtain r where r: "c # cs = OPEN_TAG @ r" by (auto simp: prefix_def)
      then have "drop (length OPEN_TAG) (c # cs) = r" by simp
      with here(2) obtain v w where "r = v @ CLOSE_TAG @ w" by (auto simp: sublist_def)
      with r have "c # cs = [] @ OPEN_TAG @ v @ CLOSE_TAG @ w" by simp
      then show ?thesis by blast
    next
      case later
      with Cons.IH obtain u v w where "cs = u @ OPEN_TAG @ v @ CLOSE_TAG @ w" by blast
      then have "c # cs = (c # u) @ OPEN_TAG @ v @ CLOSE_TAG @ w" by simp
      then show ?thesis by blast
    qed
  next
    assume "\<exists>u v w. c # cs = u @ OPEN_TAG @ v @ CLOSE_TAG @ w"
    then obtain u v w where e: "c # cs = u @ OPEN_TAG @ v @ CLOSE_TAG @ w" by blast
    show "contains_internal_block (c # cs)"
    proof (cases u)
      case Nil
      with e have "prefix OPEN_TAG (c # cs)" "drop (length OPEN_TAG) (c # cs) = v @ CLOSE_TAG @ w"
        by simp_all
      then show ?thesis by simp
    next
      case (Cons x u')
      with e have "cs = u' @ OPEN_TAG @ v @ CLOSE_TAG @ w" by simp
      with Cons.IH have "contains_internal_block cs" by blast
      then show ?thesis by simp
    qed
  qed
qed

lemma stripInternal_no_block:
  "\<not> contains_internal_block raw \<Longrightarrow> stripInternal raw = raw"
proof (induction raw)
  case Nil
  then show ?case by simp
next
  case (Cons c cs)
  then have nb: "\<not> (prefix OPEN_TAG (c # cs) \<and> sublist CLOSE_TAG (drop (length OPEN_TAG) (c # cs)))"
    and "\<not> contains_internal_block cs" by auto
  with Cons.IH have ih: "stripInternal cs = cs" by blast
  show ?case
  proof (cases "prefix OPEN_TAG (c # cs)")
    case True
    with nb have "find_first CLOSE_TAG (drop (length OPEN_TAG) (c # cs)) = None"
      by (simp add: find_first_None_iff)
    with True ih show ?thesis by simp
  next
    case False
    with ih show ?thesis by simp
  qed
qed

lemma stripInternal_at_open:
  assumes "find_first CLOSE_TAG r = Some k"
  shows "stripInternal (OPEN_TAG @ r) = stripInternal (drop (k + length CLOSE_TAG) r)"
proof -
  define cs where "cs = ''internal>'' @ r"
  have e: "OPEN_TAG @ r = CHR ''<'' # cs" by (simp add: OPEN_TAG_def cs_def)
  have p: "prefix OPEN_TAG (CHR ''<'' # cs)" by (simp add: OPEN_TAG_def cs_def)
  have d: "drop (length OPEN_TAG) (CHR ''<'' # cs) = r" by (simp add: OPEN_TAG_def cs_def)
  have d2: "drop (length OPEN_TAG - 1 + k + length CLOSE_TAG) cs = drop (k + length CLOSE_TAG) r"
    by (simp add: OPEN_TAG_def cs_def)
  have "stripInternal (CHR ''<'' # cs) = stripInternal (drop (k + length CLOSE_TAG) r)"
    by (simp only: stripInternal.simps p d d2 assms if_True option.case)
  with e show ?thesis by (simp only:)
qed

lemma stripInternal_first_block:
  assumes "\<not> sublist OPEN_TAG (p @ butlast OPEN_TAG)"
    and "\<not> sublist CLOSE_TAG (v @ butlast CLOSE_TAG)"
  shows "stripInternal (p @ OPEN_TAG @ v @ CLOSE_TAG @ rest) = p @ stripInternal rest"
  using assms(1)
proof (induction p)
  case Nil
  have f: "find_first CLOSE_TAG (v @ CLOSE_TAG @ rest) = Some (length v)"
    using assms(2) by (intro find_first_at) (simp_all add: CLOSE_TAG_def)
  have "drop (length v + length CLOSE_TAG) (v @ CLOSE_TAG @ rest) = rest" by simp
  with stripInternal_at_open[OF f] show ?case by (simp only: append_Nil)
next
  case (Cons x p)
  have ne: "OPEN_TAG \<noteq> []" by (simp add: OPEN_TAG_def)
  have np: "\<not> prefix OPEN_TAG (x # p @ OPEN_TAG @ v @ CLOSE_TAG @ rest)"
    using Cons.prems ne by (rule no_early_prefix)
  have "\<not> sublist OPEN_TAG (p @ butlast OPEN_TAG)"
    using Cons.prems by (simp add: sublist_Cons_right)
  then have ih: "stripInternal (p @ OPEN_TAG @ v @ CLOSE_TAG @ rest) = p @ stripInternal rest"
    by (rule Cons.IH)
  have "stripInternal (x # p @ OPEN_TAG @ v @ CLOSE_TAG @ rest)
      = x # stripInternal (p @ OPEN_TAG @ v @ CLOSE_TAG @ rest)"
    using np by (simp only: stripInternal.simps if_False)
  then show ?case by (simp add: ih)
qed

lemma onOutput_string_result:
  assumes "\<not> resolved st" "out_status out = Success" "out_result out = StringResult raw"
  shows "resolution (onOutput st out)
          = (if trim (stripInternal raw) = [] then resolution st
             else Some (Some (trim (stripInternal raw)), None))"
proof (cases "raw = []")
  case True
  with assms show ?thesis
    by (simp add: onOutput_def Let_def result_truthy_def trim_def)
next
  case False
  with assms show ?thesis
    by (simp add: onOutput_def Let_def result_truthy_def result_raw_def)
qed

lemma onOutput_first_result:
  assumes "trim (stripInternal raw) = t" "t \<noteq> []"
  shows "resolution (onOutput (run_start None)
            \<lparr>newSessionId = None, out_status = Success, out_result = StringResult raw,
             out_error = None\<rparr>)
          = Some (Some t, None)"
proof -
  have "resolution (onOutput (run_start None)
            \<lparr>newSessionId = None, out_status = Success, out_result = StringResult raw,
             out_error = None\<rparr>)
      = (if trim (stripInternal raw) = [] then resolution (run_start None)
         else Some (Some (trim (stripInternal raw)), None))"
    by (rule onOutput_string_result) (simp_all add: run_start_def)
  with assms show ?thesis by simp
qed

lemma onOutput_resolved:
  "resolved st \<Longrightarrow> resolved (onOutput st out) \<and> resolution (onOutput st out) = resolution st"
  by (simp add: onOutput_def Let_def)

lemma on_event_resolved:
  "resolved st \<Longrightarrow> resolved (on_event st ev) \<and> resolution (on_event st ev) = resolution st"
  by (cases ev) (simp_all add: on_event_def onOutput_resolved)

lemma foldl_on_event_resolved:
  "resolved st \<Longrightarrow> resolution (foldl on_event st evs) = resolution st"
proof (induction evs arbitrary: st)
  case Nil
  then show ?case by simp
next
  case (Cons ev evs)
  from Cons.prems have r: "resolved (on_event st ev)" and e: "resolution (on_event st ev) = resolution st"
    using on_event_resolved by blast+
  from Cons.IH[OF r] e show ?case by simp
qed

lemma onOutput_resolves:
  assumes "\<not> resolved st" "out_status out = Success" "out_result out = StringResult raw"
    and "trim (stripInternal raw) \<noteq> []"
  shows "resolved (onOutput st out)"
proof -
  from assms(4) have "raw \<noteq> []" by (auto simp: trim_def)
  with assms show ?thesis
    by (simp add: onOutput_def Let_def result_truthy_def result_raw_def)
qed

lemma handleRun_first_result:
  assumes "input_ok i" "out_status out = Success" "out_result out = StringResult raw"
    and "trim (stripInternal raw) \<noteq> []"
  shows "handleRun i sid (Streamed out # events)
      = Some \<lparr>success = True, response_result = Some (trim (stripInternal raw)),
              response_error = None\<rparr>"
proof -
  let ?st = "onOutput (run_start sid) out"
  have u: "\<not> resolved (run_start sid)" by (simp add: run_start_def)
  have "resolved ?st" using u assms(2,3,4) by (rule onOutput_resolves)
  then have "resolution (foldl on_event ?st events) = resolution ?st"
    by (rule foldl_on_event_resolved)
  moreover have "resolution ?st = Some (Some (trim (stripInternal raw)), None)"
    using onOutput_string_result[OF u assms(2,3)] assms(4) by simp
  ultimately show ?thesis
    using assms(1) by (simp add: handleRun_def on_event_def truthy_def)
qed

lemma handleRun_empty_result:
  assumes "input_ok i" "out_status out = Success" "out_result out = StringResult raw"
    and "trim (stripInternal raw) = []"
  shows "handleRun i sid [Streamed out] = None"
proof -
  have u: "\<not> resolved (run_start sid)" by (simp add: run_start_def)
  have "resolution (onOutput (run_start sid) out) = resolution (run_start sid)"
    using onOutput_string_result[OF u assms(2,3)] assms(4) by simp
  then have "resolution (onOutput (run_start sid) out) = None"
    by (simp add: run_start_def)
  then show ?thesis
    using assms(1) by (simp add: handleRun_def on_event_def)
qed

text \<open>
  C1 (as amended). The first result of a run that is a string and is not empty once
  stripped and trimmed is handed on as \<open>trim (stripInternal raw)\<close>, and is the result of
  the response of \<open>handleRun\<close>; a result that is empty once stripped and trimmed is not
  handed on, and the run goes on waiting. \<open>stripInternal\<close> is one pass from
  left to right: a string without an internal block is left as it is, and in
  \<open>p @ ''<internal>'' @ v @ ''</internal>'' @ rest\<close>, where the opening marker shown is the
  first one and the closing marker shown is the first one behind it, the block is deleted
  and the pass goes on with \<open>rest\<close> alone. What the deletions join together is not looked
  at again. The result \<open>Here is the answer.<internal>debug=42</internal>\<close> is handed on as
  \<open>Here is the answer.\<close>
\<close>

theorem internal_stripped_in_one_pass:
  "(\<not> resolved st \<and> out_status out = Success \<and> out_result out = StringResult raw
      \<longrightarrow> resolution (onOutput st out)
          = (if trim (stripInternal raw) = [] then resolution st
             else Some (Some (trim (stripInternal raw)), None)))
   \<and> (input_ok i \<and> out_status out = Success \<and> out_result out = StringResult raw
        \<and> trim (stripInternal raw) \<noteq> []
      \<longrightarrow> handleRun i sid (Streamed out # events)
          = Some \<lparr>success = True, response_result = Some (trim (stripInternal raw)),
                  response_error = None\<rparr>)
   \<and> (input_ok i \<and> out_status out = Success \<and> out_result out = StringResult raw
        \<and> trim (stripInternal raw) = []
      \<longrightarrow> handleRun i sid [Streamed out] = None)
   \<and> (\<not> contains_internal_block raw \<longrightarrow> stripInternal raw = raw)
   \<and> (\<not> sublist OPEN_TAG (p @ butlast OPEN_TAG) \<and> \<not> sublist CLOSE_TAG (v @ butlast CLOSE_TAG)
      \<longrightarrow> stripInternal (p @ OPEN_TAG @ v @ CLOSE_TAG @ rest) = p @ stripInternal rest)
   \<and> resolution (onOutput (run_start None)
        \<lparr>newSessionId = None, out_status = Success,
         out_result = StringResult ''Here is the answer.<internal>debug=42</internal>'',
         out_error = None\<rparr>)
      = Some (Some ''Here is the answer.'', None)"
proof (intro conjI impI)
  assume "input_ok i \<and> out_status out = Success \<and> out_result out = StringResult raw
        \<and> trim (stripInternal raw) \<noteq> []"
  then show "handleRun i sid (Streamed out # events)
          = Some \<lparr>success = True, response_result = Some (trim (stripInternal raw)),
                  response_error = None\<rparr>"
    using handleRun_first_result by blast
next
  assume "input_ok i \<and> out_status out = Success \<and> out_result out = StringResult raw
        \<and> trim (stripInternal raw) = []"
  then show "handleRun i sid [Streamed out] = None"
    using handleRun_empty_result by blast
next
  assume "\<not> resolved st \<and> out_status out = Success \<and> out_result out = StringResult raw"
  then show "resolution (onOutput st out)
          = (if trim (stripInternal raw) = [] then resolution st
             else Some (Some (trim (stripInternal raw)), None))"
    using onOutput_string_result by blast
next
  assume "\<not> contains_internal_block raw"
  then show "stripInternal raw = raw" by (rule stripInternal_no_block)
next
  assume "\<not> sublist OPEN_TAG (p @ butlast OPEN_TAG) \<and> \<not> sublist CLOSE_TAG (v @ butlast CLOSE_TAG)"
  then show "stripInternal (p @ OPEN_TAG @ v @ CLOSE_TAG @ rest) = p @ stripInternal rest"
    using stripInternal_first_block by blast
next
  have "trim (stripInternal ''Here is the answer.<internal>debug=42</internal>'')
      = ''Here is the answer.''"
    by code_simp
  then show "resolution (onOutput (run_start None)
        \<lparr>newSessionId = None, out_status = Success,
         out_result = StringResult ''Here is the answer.<internal>debug=42</internal>'',
         out_error = None\<rparr>)
      = Some (Some ''Here is the answer.'', None)"
    by (rule onOutput_first_result) simp
qed

theorem internal_stripped_in_one_pass_witness:
  "resolution (onOutput (run_start None)
      \<lparr>newSessionId = None, out_status = Success,
       out_result = StringResult '' <internal>note to self</internal> '', out_error = None\<rparr>)
     = None
   \<and> handleRun (Some ''What is the answer?'') None
       [Streamed \<lparr>newSessionId = None, out_status = Success,
                  out_result = StringResult ''Here is the answer.<internal>debug=42</internal>'',
                  out_error = None\<rparr>,
        TimerFired]
     = Some \<lparr>success = True, response_result = Some ''Here is the answer.'',
             response_error = None\<rparr>
   \<and> handleRun (Some ''What is the answer?'') None
       [Streamed \<lparr>newSessionId = None, out_status = Success,
                  out_result = StringResult '' <internal>note to self</internal> '',
                  out_error = None\<rparr>]
     = None
   \<and> stripInternal ''no markers here'' = ''no markers here''
   \<and> stripInternal (''Done. '' @ OPEN_TAG @ ''debug=42'' @ CLOSE_TAG @ '' Bye'')
     = ''Done. '' @ stripInternal '' Bye''"
proof -
  let ?note = "'' <internal>note to self</internal> ''"
  let ?s6 = "''Here is the answer.<internal>debug=42</internal>''"
  let ?out = "\<lparr>newSessionId = None, out_status = Success,
       out_result = StringResult ?note, out_error = None\<rparr>"
  let ?out6 = "\<lparr>newSessionId = None, out_status = Success,
       out_result = StringResult ?s6, out_error = None\<rparr>"
  let ?i = "Some ''What is the answer?''"
  have t: "trim (stripInternal ?note) = []"
    by code_simp
  have t6: "trim (stripInternal ?s6) = ''Here is the answer.''"
    by code_simp
  have s: "resolution (run_start None) = None"
    by (simp add: run_start_def)
  have h: "\<not> resolved (run_start None) \<and> out_status ?out = Success
      \<and> out_result ?out = StringResult ?note"
    by (simp add: run_start_def)
  have i: "input_ok ?i"
    by (simp add: input_ok_def)
  have n6: "trim (stripInternal ?s6) \<noteq> []"
    unfolding t6 by simp
  have r6: "out_status ?out6 = Success \<and> out_result ?out6 = StringResult ?s6"
    by simp
  have r0: "out_status ?out = Success \<and> out_result ?out = StringResult ?note"
    by simp
  have h6: "input_ok ?i \<and> out_status ?out6 = Success \<and> out_result ?out6 = StringResult ?s6
      \<and> trim (stripInternal ?s6) \<noteq> []"
    using i r6 n6 by blast
  have h0: "input_ok ?i \<and> out_status ?out = Success \<and> out_result ?out = StringResult ?note
      \<and> trim (stripInternal ?note) = []"
    using i r0 t by blast
  have n: "\<not> contains_internal_block ''no markers here''"
    by code_simp
  have oc: "\<not> sublist OPEN_TAG (''Done. '' @ butlast OPEN_TAG)
      \<and> \<not> sublist CLOSE_TAG (''debug=42'' @ butlast CLOSE_TAG)"
    by code_simp
  note thm1 = internal_stripped_in_one_pass [where st = "run_start None" and out = ?out
      and raw = ?note and i = ?i and sid = None]
  note thm2 = internal_stripped_in_one_pass [where raw = "''no markers here''"
      and p = "''Done. ''" and v = "''debug=42''" and rest = "'' Bye''"]
  note thm3 = internal_stripped_in_one_pass [where out = ?out6 and raw = ?s6 and i = ?i
      and sid = None and events = "[TimerFired]"]
  have "resolution (onOutput (run_start None) ?out)
      = (if trim (stripInternal ?note) = [] then resolution (run_start None)
         else Some (Some (trim (stripInternal ?note)), None))"
    using thm1 h by blast
  then have a: "resolution (onOutput (run_start None) ?out) = None"
    by (simp only: t s simp_thms if_True)
  have "handleRun ?i None (Streamed ?out6 # [TimerFired])
      = Some \<lparr>success = True, response_result = Some (trim (stripInternal ?s6)),
              response_error = None\<rparr>"
    using thm3 h6 by blast
  then have e1: "handleRun ?i None [Streamed ?out6, TimerFired]
      = Some \<lparr>success = True, response_result = Some ''Here is the answer.'',
              response_error = None\<rparr>"
    by (simp only: t6)
  have e2: "handleRun ?i None [Streamed ?out] = None"
    using thm1 h0 by blast
  have b: "stripInternal ''no markers here'' = ''no markers here''"
    using thm2 n by blast
  have c: "stripInternal (''Done. '' @ OPEN_TAG @ ''debug=42'' @ CLOSE_TAG @ '' Bye'')
     = ''Done. '' @ stripInternal '' Bye''"
    using thm2 oc by blast
  from a e1 e2 b c show ?thesis by blast
qed

text \<open>
  C1 as stated fails where the deletion of one block joins the pieces of another: the text
  handed on is itself a block, with its content.
\<close>

theorem internal_block_delivered_counterexample:
  "resolution (onOutput (run_start None)
      \<lparr>newSessionId = None, out_status = Success,
       out_result = StringResult ''<inte<internal>x</internal>rnal>secret</internal>'',
       out_error = None\<rparr>)
     = Some (Some ''<internal>secret</internal>'', None)
   \<and> contains_internal_block ''<internal>secret</internal>''"
proof
  have "trim (stripInternal ''<inte<internal>x</internal>rnal>secret</internal>'')
      = ''<internal>secret</internal>''"
    by code_simp
  then show "resolution (onOutput (run_start None)
      \<lparr>newSessionId = None, out_status = Success,
       out_result = StringResult ''<inte<internal>x</internal>rnal>secret</internal>'',
       out_error = None\<rparr>)
     = Some (Some ''<internal>secret</internal>'', None)"
    by (rule onOutput_first_result) simp
next
  show "contains_internal_block ''<internal>secret</internal>''"
    by code_simp
qed

section \<open>Properties of the channels\<close>

subsection \<open>Ownership\<close>

lemma channel_prefix_cases:
  assumes "prefix ''channel:'' (ns @ '':'' @ r)"
  shows "ns = ''channel'' \<or> prefix ''channel:'' ns"
  using assms
  by (auto simp: prefix_append prefix_Cons append_eq_Cons_conv Cons_eq_append_conv)

text \<open>
  C7 (as amended). For a namespace that is not empty, whose first character is one that
  \<open>toUpperCase\<close> changes (a lower-case letter), and that neither is \<open>channel\<close> nor begins
  with \<open>channel:\<close>, the default Slack instance and the instance of that namespace never
  both own a chat id.
\<close>

theorem ownsJid_disjoint:
  assumes "ns \<noteq> []" "changed_by_toUpperCase (hd ns)"
    and "ns \<noteq> ''channel''" "\<not> prefix ''channel:'' ns"
  shows "\<not> (ownsJid (new_SlackChannel None) jid \<and> ownsJid (new_SlackChannel (Some ns)) jid)"
proof
  assume both: "ownsJid (new_SlackChannel None) jid \<and> ownsJid (new_SlackChannel (Some ns)) jid"
  then have "prefix (''slack:'' @ ns @ '':'') jid"
    using assms(1) by (simp add: ownsJid_def new_SlackChannel_def jid_prefix_def truthy_def)
  then obtain r where jid: "jid = ''slack:'' @ ns @ '':'' @ r"
    by (auto simp: prefix_def)
  from assms(1) obtain c cs where ns: "ns = c # cs" by (cases ns) auto
  have "charAt jid 6 = [c]" by (simp add: jid ns charAt_def)
  moreover have "\<not> equals_own_upper_case [c]"
    using assms(2) ns by (simp add: equals_own_upper_case_def)
  ultimately have "prefix ''slack:channel:'' jid"
    using both by (simp add: ownsJid_def new_SlackChannel_def truthy_def Let_def split: if_splits)
  then have "prefix ''channel:'' (ns @ '':'' @ r)" by (simp add: jid)
  then show False using channel_prefix_cases assms(3,4) by blast
qed

theorem ownsJid_disjoint_witness:
  "\<not> (ownsJid (new_SlackChannel None) ''slack:cit:U024BE7LH''
       \<and> ownsJid (new_SlackChannel (Some ''cit'')) ''slack:cit:U024BE7LH'')
   \<and> ownsJid (new_SlackChannel (Some ''cit'')) ''slack:cit:U024BE7LH''"
  using ownsJid_disjoint [of "''cit''" "''slack:cit:U024BE7LH''"]
  by (simp add: changed_by_toUpperCase_def ownsJid_def new_SlackChannel_def jid_prefix_def truthy_def)

text \<open>
  C7 as stated fails for a namespace that begins with a capital letter: both instances
  own \<open>slack:CIT:U024BE7LH\<close>.
\<close>

theorem ownsJid_overlap_counterexample:
  "ownsJid (new_SlackChannel None) ''slack:CIT:U024BE7LH''
   \<and> ownsJid (new_SlackChannel (Some ''CIT'')) ''slack:CIT:U024BE7LH''"
  by (simp add: ownsJid_def new_SlackChannel_def jid_prefix_def truthy_def charAt_def
      equals_own_upper_case_def changed_by_toUpperCase_def)

subsection \<open>Messages of the bot itself\<close>

lemma processInbound_flags:
  assumes "isFromMe inb = Some True \<or> in_source inb = account ch"
    and "OnMessage j m \<in> set (snd (processInbound env ch inb))"
  shows "is_from_me m \<and> is_bot_message m"
  using assms
  by (auto simp: processInbound_def Let_def split: option.splits if_splits)

lemma processInbound_delivers:
  assumes "registered_groups env (inbound_chatJid inb)"
    and "toISOString env (in_timestamp inb) \<noteq> None"
  shows "list_ex is_OnMessage (snd (processInbound env ch inb))"
  using assms
  by (auto simp: processInbound_def Let_def split: option.splits)

lemma handleEntry_sync_only:
  assumes "has_sent_text e" "\<not> has_data_text e"
  shows "handleEntry env ch \<lparr>entry_envelope = Some e\<rparr>
      = processInbound env ch (sync_inbound env ch e (the (sent_of e)))"
  using assms by (simp add: handleEntry_def split: prod.splits)

text \<open>
  C2 (as amended). On Slack, a message event whose user is the bot user id the channel
  learned at connect ends the listener with no callback made. On Signal, a message whose
  source is the configured account, and a device sync message (which \<open>handleEntry\<close> passes
  on with the account as its source and \<open>isFromMe\<close> set), is not dropped by the channel:
  when its chat is registered, \<open>onMessage\<close> is called for it, and every message so handed
  on has \<open>is_from_me\<close> and \<open>is_bot_message\<close> set.
\<close>

theorem self_echo_handling:
  "(botUserId sl = Some b \<and> user ev = Some b \<longrightarrow> slack_listener senv sl ev = (Inr (), [], sl))
   \<and> ((isFromMe inb = Some True \<or> in_source inb = account ch)
        \<and> registered_groups env (inbound_chatJid inb)
        \<and> toISOString env (in_timestamp inb) \<noteq> None
      \<longrightarrow> list_ex is_OnMessage (snd (processInbound env ch inb))
          \<and> (\<forall>j m. OnMessage j m \<in> set (snd (processInbound env ch inb))
                \<longrightarrow> is_from_me m \<and> is_bot_message m))
   \<and> (has_sent_text e \<and> \<not> has_data_text e
      \<longrightarrow> handleEntry env ch \<lparr>entry_envelope = Some e\<rparr>
            = processInbound env ch (sync_inbound env ch e (the (sent_of e)))
          \<and> isFromMe (sync_inbound env ch e (the (sent_of e))) = Some True)"
proof (intro conjI impI)
  assume "has_sent_text e \<and> \<not> has_data_text e"
  then show "handleEntry env ch \<lparr>entry_envelope = Some e\<rparr>
            = processInbound env ch (sync_inbound env ch e (the (sent_of e)))"
    using handleEntry_sync_only by blast
  show "isFromMe (sync_inbound env ch e (the (sent_of e))) = Some True"
    by (simp add: sync_inbound_def)
next
  assume "botUserId sl = Some b \<and> user ev = Some b"
  then show "slack_listener senv sl ev = (Inr (), [], sl)"
    by (simp add: slack_listener_def)
next
  assume a: "(isFromMe inb = Some True \<or> in_source inb = account ch)
        \<and> registered_groups env (inbound_chatJid inb)
        \<and> toISOString env (in_timestamp inb) \<noteq> None"
  then show "list_ex is_OnMessage (snd (processInbound env ch inb))"
    using processInbound_delivers by blast
  from a show "\<forall>j m. OnMessage j m \<in> set (snd (processInbound env ch inb))
                \<longrightarrow> is_from_me m \<and> is_bot_message m"
    using processInbound_flags by blast
qed

theorem self_echo_handling_witness:
  "slack_listener
      \<lparr>registered = (\<lambda>j. True), onNewContact = None, registered_after = (\<lambda>j. True),
       users_info = (\<lambda>u. InfoThrows), slackTsToIso = (\<lambda>t. Some ''2024-01-01T00:00:00.000Z''),
       conversations_open = (\<lambda>u. Inr None), postMessage = (\<lambda>c t. None)\<rparr>
      ((new_SlackChannel None)\<lparr>slack_connected := True, botUserId := Some ''U0BOT''\<rparr>)
      \<lparr>bot_id = None, subtype = None, user = Some ''U0BOT'', channel = ''C42'',
       channel_type = ''channel'', event_text = Some ''echo'', ts = ''1704067200.000100''\<rparr>
     = (Inr (), [], (new_SlackChannel None)\<lparr>slack_connected := True, botUserId := Some ''U0BOT''\<rparr>)
   \<and> list_ex is_OnMessage (snd (processInbound
        \<lparr>rpc_result = (\<lambda>n. True), receive_result = (\<lambda>n. []),
         registered_groups = (\<lambda>j. j = ''sig:+15550100''), now = 1700000000000,
         toISOString = (\<lambda>t. Some ''2023-11-14T22:13:20.000Z''),
         number_text = (\<lambda>t. ''1700000000000'')\<rparr>
        (new_SignalChannel ''+15550100'')
        \<lparr>in_source = ''+15550100'', in_sourceName = None, in_message = ''note'',
         in_timestamp = 1700000000000, in_groupId = None, isFromMe = None\<rparr>))
   \<and> handleEntry
        \<lparr>rpc_result = (\<lambda>n. True), receive_result = (\<lambda>n. []),
         registered_groups = (\<lambda>j. j = ''sig:+15550100''), now = 1700000000000,
         toISOString = (\<lambda>t. Some ''2023-11-14T22:13:20.000Z''),
         number_text = (\<lambda>t. ''1700000000000'')\<rparr>
        (new_SignalChannel ''+15550100'')
        \<lparr>entry_envelope = Some
          \<lparr>source = Some ''+15550100'', sourceName = None, sourceNumber = None,
           env_timestamp = Some 1700000000000, dataMessage = None,
           syncMessage = Some \<lparr>sentMessage = Some
             \<lparr>sent_text = Some ''on my way'', sent_timestamp = None, destination = None,
              sent_groupInfo = None\<rparr>\<rparr>\<rparr>\<rparr>
     = (Inr (),
        [OnChatMetadata ''sig:+15550100'' ''2023-11-14T22:13:20.000Z'' (Some ''+15550100'')
           ''signal'' False,
         OnMessage ''sig:+15550100''
           \<lparr>msg_id = ''sig_1700000000000_+15550100'', chat_jid = ''sig:+15550100'',
            sender = ''+15550100'', sender_name = ''+15550100'', content = ''on my way'',
            msg_timestamp = ''2023-11-14T22:13:20.000Z'', is_from_me = True,
            is_bot_message = True\<rparr>])"
proof -
  let ?senv = "\<lparr>registered = (\<lambda>j. True), onNewContact = None, registered_after = (\<lambda>j. True),
       users_info = (\<lambda>u. InfoThrows), slackTsToIso = (\<lambda>t. Some ''2024-01-01T00:00:00.000Z''),
       conversations_open = (\<lambda>u. Inr None), postMessage = (\<lambda>c t. None)\<rparr>"
  let ?sl = "(new_SlackChannel None)\<lparr>slack_connected := True, botUserId := Some ''U0BOT''\<rparr>"
  let ?ev = "\<lparr>bot_id = None, subtype = None, user = Some ''U0BOT'', channel = ''C42'',
       channel_type = ''channel'', event_text = Some ''echo'', ts = ''1704067200.000100''\<rparr>"
  let ?env = "\<lparr>rpc_result = (\<lambda>n. True), receive_result = (\<lambda>n. []),
         registered_groups = (\<lambda>j. j = ''sig:+15550100''), now = 1700000000000,
         toISOString = (\<lambda>t. Some ''2023-11-14T22:13:20.000Z''),
         number_text = (\<lambda>t. ''1700000000000'')\<rparr>"
  let ?ch = "new_SignalChannel ''+15550100''"
  let ?inb = "\<lparr>in_source = ''+15550100'', in_sourceName = None, in_message = ''note'',
         in_timestamp = 1700000000000, in_groupId = None, isFromMe = None\<rparr>"
  let ?e = "\<lparr>source = Some ''+15550100'', sourceName = None, sourceNumber = None,
           env_timestamp = Some 1700000000000, dataMessage = None,
           syncMessage = Some \<lparr>sentMessage = Some
             \<lparr>sent_text = Some ''on my way'', sent_timestamp = None, destination = None,
              sent_groupInfo = None\<rparr>\<rparr>\<rparr>"
  have h1: "botUserId ?sl = Some ''U0BOT'' \<and> user ?ev = Some ''U0BOT''"
    by simp
  have h2: "(isFromMe ?inb = Some True \<or> in_source ?inb = account ?ch)
        \<and> registered_groups ?env (inbound_chatJid ?inb)
        \<and> toISOString ?env (in_timestamp ?inb) \<noteq> None"
    by (simp add: new_SignalChannel_def inbound_chatJid_def truthy_def)
  have h3: "has_sent_text ?e \<and> \<not> has_data_text ?e"
    by (simp add: has_sent_text_def has_data_text_def sent_of_def truthy_def)
  have p: "processInbound ?env ?ch (sync_inbound ?env ?ch ?e (the (sent_of ?e)))
      = (Inr (),
        [OnChatMetadata ''sig:+15550100'' ''2023-11-14T22:13:20.000Z'' (Some ''+15550100'')
           ''signal'' False,
         OnMessage ''sig:+15550100''
           \<lparr>msg_id = ''sig_1700000000000_+15550100'', chat_jid = ''sig:+15550100'',
            sender = ''+15550100'', sender_name = ''+15550100'', content = ''on my way'',
            msg_timestamp = ''2023-11-14T22:13:20.000Z'', is_from_me = True,
            is_bot_message = True\<rparr>])"
    by (simp add: processInbound_def sync_inbound_def sent_of_def inbound_chatJid_def
        new_SignalChannel_def first_timestamp_def or_default_def truthy_def Let_def)
  note t = self_echo_handling [where sl = ?sl and b = "''U0BOT''" and ev = ?ev and senv = ?senv
      and inb = ?inb and ch = ?ch and env = ?env and e = ?e]
  from t h1 have a: "slack_listener ?senv ?sl ?ev = (Inr (), [], ?sl)" by blast
  from t h2 have b: "list_ex is_OnMessage (snd (processInbound ?env ?ch ?inb))" by blast
  from t h3 have "handleEntry ?env ?ch \<lparr>entry_envelope = Some ?e\<rparr>
      = processInbound ?env ?ch (sync_inbound ?env ?ch ?e (the (sent_of ?e)))" by blast
  with p have c: "handleEntry ?env ?ch \<lparr>entry_envelope = Some ?e\<rparr>
      = (Inr (),
        [OnChatMetadata ''sig:+15550100'' ''2023-11-14T22:13:20.000Z'' (Some ''+15550100'')
           ''signal'' False,
         OnMessage ''sig:+15550100''
           \<lparr>msg_id = ''sig_1700000000000_+15550100'', chat_jid = ''sig:+15550100'',
            sender = ''+15550100'', sender_name = ''+15550100'', content = ''on my way'',
            msg_timestamp = ''2023-11-14T22:13:20.000Z'', is_from_me = True,
            is_bot_message = True\<rparr>])"
    by (simp only:)
  from a b c show ?thesis by blast
qed

text \<open>
  C2 as stated fails on Signal: for a device sync message to a registered group,
  \<open>onMessage\<close> is called.
\<close>

theorem signal_self_echo_counterexample:
  "list_ex is_OnMessage (snd (handleEntry
      \<lparr>rpc_result = (\<lambda>n. True), receive_result = (\<lambda>n. []),
        registered_groups = (\<lambda>j. j = ''sig:group:g1''), now = 1700000000000,
        toISOString = (\<lambda>t. Some ''2023-11-14T22:13:20.000Z''),
        number_text = (\<lambda>t. ''1700000000000'')\<rparr>
      (new_SignalChannel ''+15550100'')
      \<lparr>entry_envelope = Some
          \<lparr>source = Some ''+15550100'', sourceName = None, sourceNumber = None,
           env_timestamp = Some 1700000000000, dataMessage = None,
           syncMessage = Some \<lparr>sentMessage = Some
             \<lparr>sent_text = Some ''on my way'', sent_timestamp = None, destination = None,
              sent_groupInfo = Some \<lparr>groupId = ''g1''\<rparr>\<rparr>\<rparr>\<rparr>\<rparr>))"
  by (simp add: handleEntry_def has_data_text_def has_sent_text_def sent_of_def truthy_def
      processInbound_def sync_inbound_def inbound_chatJid_def new_SignalChannel_def
      first_timestamp_def or_default_def Let_def)

subsection \<open>Sending, queueing and failure\<close>

lemma sendViaRpc_ok:
  "rpc_result env (Suc (rpcId ch)) \<Longrightarrow>
   sendViaRpc env ch jid tx = (Inr (), [send_request (jid, tx)], ch\<lparr>rpcId := Suc (rpcId ch)\<rparr>)"
  by (simp add: sendViaRpc_def rpc_def Let_def)

lemma flush_loop_all_sent:
  assumes "\<forall>n. rpc_result env n"
  shows "flush_loop env ch =
    (Inr (), map send_request (outgoingQueue ch),
     ch\<lparr>outgoingQueue := [], rpcId := rpcId ch + length (outgoingQueue ch)\<rparr>)"
  using assms
proof (induction "outgoingQueue ch" arbitrary: ch)
  case Nil
  then show ?case by (subst flush_loop.simps) (simp flip: Nil.hyps)
next
  case (Cons item items)
  let ?ch1 = "ch\<lparr>outgoingQueue := items, rpcId := Suc (rpcId ch)\<rparr>"
  have q: "outgoingQueue ch = item # items" using Cons.hyps(2) by simp
  have s: "sendViaRpc env (ch\<lparr>outgoingQueue := items\<rparr>) (fst item) (snd item)
      = (Inr (), [send_request item], ?ch1)"
    using Cons.prems by (simp add: sendViaRpc_ok)
  have ih: "flush_loop env ?ch1 = (Inr (), map send_request items,
      ?ch1\<lparr>outgoingQueue := [], rpcId := rpcId ?ch1 + length items\<rparr>)"
    using Cons.hyps(1)[of ?ch1] Cons.prems by simp
  show ?case
    by (subst flush_loop.simps) (simp add: q s ih)
qed

lemma flushOutgoingQueue_all_sent:
  assumes "\<forall>n. rpc_result env n" "\<not> flushing ch"
  shows "flushOutgoingQueue env ch =
    (Inr (), map send_request (outgoingQueue ch),
     ch\<lparr>outgoingQueue := [], rpcId := rpcId ch + length (outgoingQueue ch)\<rparr>)"
  using assms by (simp add: flushOutgoingQueue_def flush_loop_all_sent)

lemma signal_connect_drains:
  assumes "\<forall>n. rpc_result env n" "\<not> flushing ch"
  shows "signal_connect env ch =
    (Inr (), RpcVersion # map send_request (outgoingQueue ch),
     ch\<lparr>signal_connected := True, pollTimer := True, outgoingQueue := [],
        rpcId := rpcId ch + 1 + length (outgoingQueue ch)\<rparr>)"
  using assms
  by (simp add: signal_connect_def rpc_def Let_def flushOutgoingQueue_all_sent)

lemma sendViaRpc_fails:
  "\<not> rpc_result env (Suc (rpcId ch)) \<Longrightarrow>
   sendViaRpc env ch jid tx
     = (Inl (JsError (''Signal send failed for '' @ jid)), [send_request (jid, tx)],
        ch\<lparr>rpcId := Suc (rpcId ch)\<rparr>)"
  by (simp add: sendViaRpc_def rpc_def Let_def)

lemma flush_loop_all_accepted:
  assumes "\<forall>i<length (outgoingQueue ch). rpc_result env (rpcId ch + 1 + i)"
  shows "flush_loop env ch =
    (Inr (), map send_request (outgoingQueue ch),
     ch\<lparr>outgoingQueue := [], rpcId := rpcId ch + length (outgoingQueue ch)\<rparr>)"
  using assms
proof (induction "outgoingQueue ch" arbitrary: ch)
  case Nil
  then show ?case by (subst flush_loop.simps) (simp flip: Nil.hyps)
next
  case (Cons item items)
  let ?ch1 = "ch\<lparr>outgoingQueue := items, rpcId := Suc (rpcId ch)\<rparr>"
  have q: "outgoingQueue ch = item # items" using Cons.hyps(2) by simp
  have ok0: "rpc_result env (Suc (rpcId ch))"
    using Cons.prems q by (auto dest: spec[of _ 0])
  have s: "sendViaRpc env (ch\<lparr>outgoingQueue := items\<rparr>) (fst item) (snd item)
      = (Inr (), [send_request item], ?ch1)"
    using ok0 by (simp add: sendViaRpc_ok)
  have "\<forall>i<length (outgoingQueue ?ch1). rpc_result env (rpcId ?ch1 + 1 + i)"
  proof (intro allI impI)
    fix i assume "i < length (outgoingQueue ?ch1)"
    then have "Suc i < length (outgoingQueue ch)" by (simp add: q)
    with Cons.prems have "rpc_result env (rpcId ch + 1 + Suc i)" by blast
    then show "rpc_result env (rpcId ?ch1 + 1 + i)" by simp
  qed
  then have ih: "flush_loop env ?ch1 = (Inr (), map send_request items,
      ?ch1\<lparr>outgoingQueue := [], rpcId := rpcId ?ch1 + length items\<rparr>)"
    using Cons.hyps(1)[of ?ch1] by simp
  show ?case
    by (subst flush_loop.simps) (simp add: q s ih)
qed

lemma flush_loop_first_failure:
  assumes "j < length (outgoingQueue ch)"
    and "\<forall>i<j. rpc_result env (rpcId ch + 1 + i)"
    and "\<not> rpc_result env (rpcId ch + 1 + j)"
  shows "flush_loop env ch =
    (Inl (JsError (''Signal send failed for '' @ fst (outgoingQueue ch ! j))),
     map send_request (take (Suc j) (outgoingQueue ch)),
     ch\<lparr>outgoingQueue := drop (Suc j) (outgoingQueue ch), rpcId := rpcId ch + Suc j\<rparr>)"
  using assms
proof (induction "outgoingQueue ch" arbitrary: ch j)
  case Nil
  then show ?case by simp
next
  case (Cons item items)
  have q: "outgoingQueue ch = item # items" using Cons.hyps(2) by simp
  show ?case
  proof (cases j)
    case 0
    with Cons.prems(3) have "\<not> rpc_result env (Suc (rpcId ch))" by simp
    then have s: "sendViaRpc env (ch\<lparr>outgoingQueue := items\<rparr>) (fst item) (snd item)
        = (Inl (JsError (''Signal send failed for '' @ fst item)), [send_request item],
           ch\<lparr>outgoingQueue := items, rpcId := Suc (rpcId ch)\<rparr>)"
      by (simp add: sendViaRpc_fails)
    show ?thesis
      by (subst flush_loop.simps) (simp add: q s 0)
  next
    case (Suc j')
    let ?ch1 = "ch\<lparr>outgoingQueue := items, rpcId := Suc (rpcId ch)\<rparr>"
    have ok0: "rpc_result env (Suc (rpcId ch))"
      using Cons.prems(2) Suc by (auto dest: spec[of _ 0])
    have s: "sendViaRpc env (ch\<lparr>outgoingQueue := items\<rparr>) (fst item) (snd item)
        = (Inr (), [send_request item], ?ch1)"
      using ok0 by (simp add: sendViaRpc_ok)
    have a1: "j' < length (outgoingQueue ?ch1)" using Cons.prems(1) Suc q by simp
    have a2: "\<forall>i<j'. rpc_result env (rpcId ?ch1 + 1 + i)"
    proof (intro allI impI)
      fix i assume "i < j'"
      then have "Suc i < j" using Suc by simp
      with Cons.prems(2) have "rpc_result env (rpcId ch + 1 + Suc i)" by blast
      then show "rpc_result env (rpcId ?ch1 + 1 + i)" by simp
    qed
    have a3: "\<not> rpc_result env (rpcId ?ch1 + 1 + j')"
      using Cons.prems(3) Suc by simp
    have ih: "flush_loop env ?ch1 =
      (Inl (JsError (''Signal send failed for '' @ fst (outgoingQueue ?ch1 ! j'))),
       map send_request (take (Suc j') (outgoingQueue ?ch1)),
       ?ch1\<lparr>outgoingQueue := drop (Suc j') (outgoingQueue ?ch1), rpcId := rpcId ?ch1 + Suc j'\<rparr>)"
      using Cons.hyps(1)[of ?ch1 j'] a1 a2 a3 by simp
    show ?thesis
      by (subst flush_loop.simps) (simp add: q s ih Suc)
  qed
qed

lemma signal_connect_all_accepted:
  assumes "rpc_result env (rpcId ch + 1)" "\<not> flushing ch"
    and "\<forall>i<length (outgoingQueue ch). rpc_result env (rpcId ch + 2 + i)"
  shows "signal_connect env ch =
    (Inr (), RpcVersion # map send_request (outgoingQueue ch),
     ch\<lparr>signal_connected := True, pollTimer := True, outgoingQueue := [],
        rpcId := rpcId ch + 1 + length (outgoingQueue ch)\<rparr>)"
proof (cases "outgoingQueue ch = []")
  case True
  with assms(1,2) show ?thesis
    by (simp add: signal_connect_def rpc_def Let_def flushOutgoingQueue_def)
next
  case False
  let ?ch1 = "ch\<lparr>rpcId := rpcId ch + 1, signal_connected := True, flushing := True\<rparr>"
  have "\<forall>i<length (outgoingQueue ?ch1). rpc_result env (rpcId ?ch1 + 1 + i)"
    using assms(3) by simp
  then have f: "flush_loop env ?ch1 =
    (Inr (), map send_request (outgoingQueue ?ch1),
     ?ch1\<lparr>outgoingQueue := [], rpcId := rpcId ?ch1 + length (outgoingQueue ?ch1)\<rparr>)"
    by (rule flush_loop_all_accepted)
  show ?thesis
    using assms(1,2) False f
    by (simp add: signal_connect_def rpc_def Let_def flushOutgoingQueue_def)
qed

lemma signal_connect_first_failure:
  assumes "rpc_result env (rpcId ch + 1)" "\<not> flushing ch"
    and "j < length (outgoingQueue ch)"
    and "\<forall>i<j. rpc_result env (rpcId ch + 2 + i)"
    and "\<not> rpc_result env (rpcId ch + 2 + j)"
  shows "signal_connect env ch =
    (Inr (), RpcVersion # map send_request (take (Suc j) (outgoingQueue ch)),
     ch\<lparr>signal_connected := True, pollTimer := True,
        outgoingQueue := drop (Suc j) (outgoingQueue ch), rpcId := rpcId ch + 2 + j\<rparr>)"
proof -
  let ?ch1 = "ch\<lparr>rpcId := rpcId ch + 1, signal_connected := True, flushing := True\<rparr>"
  have ne: "outgoingQueue ch \<noteq> []" using assms(3) by auto
  have a1: "j < length (outgoingQueue ?ch1)" using assms(3) by simp
  have a2: "\<forall>i<j. rpc_result env (rpcId ?ch1 + 1 + i)" using assms(4) by simp
  have a3: "\<not> rpc_result env (rpcId ?ch1 + 1 + j)" using assms(5) by simp
  have f: "flush_loop env ?ch1 =
    (Inl (JsError (''Signal send failed for '' @ fst (outgoingQueue ?ch1 ! j))),
     map send_request (take (Suc j) (outgoingQueue ?ch1)),
     ?ch1\<lparr>outgoingQueue := drop (Suc j) (outgoingQueue ?ch1), rpcId := rpcId ?ch1 + Suc j\<rparr>)"
    using a1 a2 a3 by (rule flush_loop_first_failure)
  show ?thesis
    using assms(1,2) ne f
    by (simp add: signal_connect_def rpc_def Let_def flushOutgoingQueue_def)
qed

lemma slack_send_ignores_connected:
  "fst (slack_sendMessage senv (sl\<lparr>slack_connected := b\<rparr>) jid tx) = fst (slack_sendMessage senv sl jid tx)
   \<and> fst (snd (slack_sendMessage senv (sl\<lparr>slack_connected := b\<rparr>) jid tx))
     = fst (snd (slack_sendMessage senv sl jid tx))"
  by (auto simp: slack_sendMessage_def resolveChannelId_def channelPrefix_def jid_prefix_def
      Let_def split: sum.splits option.splits prod.splits)

lemma slack_send_posts:
  assumes "resolveChannelId senv sl jid = (Inr c, calls, sl')"
  shows "fst (snd (slack_sendMessage senv sl jid tx)) = calls @ [PostMessage c tx]"
  using assms by (simp add: slack_sendMessage_def split: option.splits)

lemma signal_sendMessage_returns: "fst (signal_sendMessage env ch jid tx) = Inr ()"
  by (auto simp: signal_sendMessage_def split: prod.splits sum.splits)

text \<open>
  C3 (as amended). On the Signal channel, \<open>sendMessage\<close> on a channel that is not
  connected appends the pair to the queue and sends nothing. A connect whose \<open>version\<close>
  call succeeds sends the queue from its head, in its order: the whole queue, leaving it
  empty, when the daemon accepts every send; and otherwise the items up to and with the
  first one whose send fails, leaving the items behind that one queued. So three sends A,
  B, C on a new channel, followed by a connect with a daemon that accepts every call, make
  exactly the three transport sends A, B, C in this order. On the Slack channel the
  connection state plays no part: what \<open>sendMessage\<close> returns and requests is the same
  whether the channel is connected or not, and when the channel id resolves the message
  is posted at once.
\<close>

theorem signal_offline_queue:
  "(\<not> signal_connected ch
      \<longrightarrow> signal_sendMessage env ch jid tx
          = (Inr (), [], ch\<lparr>outgoingQueue := outgoingQueue ch @ [(jid, tx)]\<rparr>))
   \<and> (rpc_result env (rpcId ch + 1) \<and> \<not> flushing ch
        \<and> (\<forall>i<length (outgoingQueue ch). rpc_result env (rpcId ch + 2 + i))
      \<longrightarrow> signal_connect env ch
          = (Inr (), RpcVersion # map send_request (outgoingQueue ch),
             ch\<lparr>signal_connected := True, pollTimer := True, outgoingQueue := [],
                rpcId := rpcId ch + 1 + length (outgoingQueue ch)\<rparr>))
   \<and> (rpc_result env (rpcId ch + 1) \<and> \<not> flushing ch
        \<and> j < length (outgoingQueue ch)
        \<and> (\<forall>i<j. rpc_result env (rpcId ch + 2 + i))
        \<and> \<not> rpc_result env (rpcId ch + 2 + j)
      \<longrightarrow> signal_connect env ch
          = (Inr (), RpcVersion # map send_request (take (Suc j) (outgoingQueue ch)),
             ch\<lparr>signal_connected := True, pollTimer := True,
                outgoingQueue := drop (Suc j) (outgoingQueue ch), rpcId := rpcId ch + 2 + j\<rparr>))
   \<and> ((\<forall>n. rpc_result env n)
      \<longrightarrow> (let ch0 = new_SignalChannel acct;
               ch1 = snd (snd (signal_sendMessage env ch0 jid a));
               ch2 = snd (snd (signal_sendMessage env ch1 jid b));
               ch3 = snd (snd (signal_sendMessage env ch2 jid c))
           in fst (snd (signal_sendMessage env ch0 jid a)) = []
              \<and> fst (snd (signal_sendMessage env ch1 jid b)) = []
              \<and> fst (snd (signal_sendMessage env ch2 jid c)) = []
              \<and> filter is_send (fst (snd (signal_connect env ch3)))
                  = [send_request (jid, a), send_request (jid, b), send_request (jid, c)]
              \<and> outgoingQueue (snd (snd (signal_connect env ch3))) = []))
   \<and> fst (slack_sendMessage senv (sl\<lparr>slack_connected := conn\<rparr>) sjid tx)
       = fst (slack_sendMessage senv sl sjid tx)
   \<and> fst (snd (slack_sendMessage senv (sl\<lparr>slack_connected := conn\<rparr>) sjid tx))
       = fst (snd (slack_sendMessage senv sl sjid tx))
   \<and> (resolveChannelId senv sl sjid = (Inr cid, calls, sl')
      \<longrightarrow> fst (snd (slack_sendMessage senv sl sjid tx)) = calls @ [PostMessage cid tx])"
proof (intro conjI impI)
  assume "\<not> signal_connected ch"
  then show "signal_sendMessage env ch jid tx
          = (Inr (), [], ch\<lparr>outgoingQueue := outgoingQueue ch @ [(jid, tx)]\<rparr>)"
    by (simp add: signal_sendMessage_def)
next
  assume "rpc_result env (rpcId ch + 1) \<and> \<not> flushing ch
        \<and> (\<forall>i<length (outgoingQueue ch). rpc_result env (rpcId ch + 2 + i))"
  then show "signal_connect env ch
          = (Inr (), RpcVersion # map send_request (outgoingQueue ch),
             ch\<lparr>signal_connected := True, pollTimer := True, outgoingQueue := [],
                rpcId := rpcId ch + 1 + length (outgoingQueue ch)\<rparr>)"
    using signal_connect_all_accepted by blast
next
  assume "rpc_result env (rpcId ch + 1) \<and> \<not> flushing ch
        \<and> j < length (outgoingQueue ch)
        \<and> (\<forall>i<j. rpc_result env (rpcId ch + 2 + i))
        \<and> \<not> rpc_result env (rpcId ch + 2 + j)"
  then show "signal_connect env ch
          = (Inr (), RpcVersion # map send_request (take (Suc j) (outgoingQueue ch)),
             ch\<lparr>signal_connected := True, pollTimer := True,
                outgoingQueue := drop (Suc j) (outgoingQueue ch), rpcId := rpcId ch + 2 + j\<rparr>)"
    using signal_connect_first_failure by blast
next
  assume ok: "\<forall>n. rpc_result env n"
  have s: "\<And>ch t. \<not> signal_connected ch \<Longrightarrow> signal_sendMessage env ch jid t
          = (Inr (), [], ch\<lparr>outgoingQueue := outgoingQueue ch @ [(jid, t)]\<rparr>)"
    by (simp add: signal_sendMessage_def)
  define ch3 where "ch3 = (new_SignalChannel acct)\<lparr>outgoingQueue := [(jid, a), (jid, b), (jid, c)]\<rparr>"
  have c3: "\<not> flushing ch3" "outgoingQueue ch3 = [(jid, a), (jid, b), (jid, c)]"
    by (simp_all add: ch3_def new_SignalChannel_def)
  have d: "signal_connect env ch3
      = (Inr (), RpcVersion # map send_request (outgoingQueue ch3),
         ch3\<lparr>signal_connected := True, pollTimer := True, outgoingQueue := [],
             rpcId := rpcId ch3 + 1 + length (outgoingQueue ch3)\<rparr>)"
    using ok c3(1) by (rule signal_connect_drains)
  have e: "snd (snd (signal_sendMessage env
             (snd (snd (signal_sendMessage env
                (snd (snd (signal_sendMessage env (new_SignalChannel acct) jid a))) jid b))) jid c)) = ch3"
    by (simp add: s ch3_def new_SignalChannel_def)
  show "let ch0 = new_SignalChannel acct;
               ch1 = snd (snd (signal_sendMessage env ch0 jid a));
               ch2 = snd (snd (signal_sendMessage env ch1 jid b));
               ch3 = snd (snd (signal_sendMessage env ch2 jid c))
           in fst (snd (signal_sendMessage env ch0 jid a)) = []
              \<and> fst (snd (signal_sendMessage env ch1 jid b)) = []
              \<and> fst (snd (signal_sendMessage env ch2 jid c)) = []
              \<and> filter is_send (fst (snd (signal_connect env ch3)))
                  = [send_request (jid, a), send_request (jid, b), send_request (jid, c)]
              \<and> outgoingQueue (snd (snd (signal_connect env ch3))) = []"
    unfolding Let_def e
    by (simp add: d c3 s new_SignalChannel_def send_request_def)
next
  show "fst (slack_sendMessage senv (sl\<lparr>slack_connected := conn\<rparr>) sjid tx)
       = fst (slack_sendMessage senv sl sjid tx)"
    using slack_send_ignores_connected by blast
next
  show "fst (snd (slack_sendMessage senv (sl\<lparr>slack_connected := conn\<rparr>) sjid tx))
       = fst (snd (slack_sendMessage senv sl sjid tx))"
    using slack_send_ignores_connected by blast
next
  assume "resolveChannelId senv sl sjid = (Inr cid, calls, sl')"
  then show "fst (snd (slack_sendMessage senv sl sjid tx)) = calls @ [PostMessage cid tx]"
    by (rule slack_send_posts)
qed

theorem signal_offline_queue_witness:
  "filter is_send (fst (snd (signal_connect
      \<lparr>rpc_result = (\<lambda>n. True), receive_result = (\<lambda>n. []),
       registered_groups = (\<lambda>j. False), now = 1700000000000,
       toISOString = (\<lambda>t. Some ''2023-11-14T22:13:20.000Z''),
       number_text = (\<lambda>t. ''1700000000000'')\<rparr>
      ((new_SignalChannel ''+15550100'')
         \<lparr>outgoingQueue := [(''sig:+15550123'', ''A''), (''sig:+15550123'', ''B''),
                            (''sig:group:g1'', ''C'')]\<rparr>))))
     = [RpcSendRecipient ''+15550123'' ''A'', RpcSendRecipient ''+15550123'' ''B'',
        RpcSendGroup ''g1'' ''C'']
   \<and> outgoingQueue (snd (snd (signal_sendMessage
      \<lparr>rpc_result = (\<lambda>n. True), receive_result = (\<lambda>n. []),
       registered_groups = (\<lambda>j. False), now = 1700000000000,
       toISOString = (\<lambda>t. Some ''2023-11-14T22:13:20.000Z''),
       number_text = (\<lambda>t. ''1700000000000'')\<rparr>
      (new_SignalChannel ''+15550100'') ''sig:+15550123'' ''A'')))
     = [(''sig:+15550123'', ''A'')]
   \<and> signal_connect
      \<lparr>rpc_result = (\<lambda>n. n < 3), receive_result = (\<lambda>n. []),
       registered_groups = (\<lambda>j. False), now = 1700000000000,
       toISOString = (\<lambda>t. Some ''2023-11-14T22:13:20.000Z''),
       number_text = (\<lambda>t. ''1700000000000'')\<rparr>
      ((new_SignalChannel ''+15550100'')
         \<lparr>outgoingQueue := [(''sig:+15550123'', ''A''), (''sig:+15550123'', ''B''),
                            (''sig:group:g1'', ''C'')]\<rparr>)
     = (Inr (),
        [RpcVersion, RpcSendRecipient ''+15550123'' ''A'', RpcSendRecipient ''+15550123'' ''B''],
        (new_SignalChannel ''+15550100'')
          \<lparr>signal_connected := True, pollTimer := True,
           outgoingQueue := [(''sig:group:g1'', ''C'')], rpcId := 3\<rparr>)
   \<and> fst (snd (slack_sendMessage
        \<lparr>registered = (\<lambda>j. True), onNewContact = None, registered_after = (\<lambda>j. True),
         users_info = (\<lambda>u. InfoThrows), slackTsToIso = (\<lambda>t. None),
         conversations_open = (\<lambda>u. Inr None), postMessage = (\<lambda>c t. None)\<rparr>
        (new_SlackChannel None) ''slack:channel:C42'' ''A''))
     = [] @ [PostMessage ''C42'' ''A'']
   \<and> (let ch0 = new_SignalChannel ''+15550100'';
          ch1 = snd (snd (signal_sendMessage
                  \<lparr>rpc_result = (\<lambda>n. True), receive_result = (\<lambda>n. []),
                   registered_groups = (\<lambda>j. False), now = 1700000000000,
                   toISOString = (\<lambda>t. Some ''2023-11-14T22:13:20.000Z''),
                   number_text = (\<lambda>t. ''1700000000000'')\<rparr> ch0 ''sig:+15550123'' ''A''));
          ch2 = snd (snd (signal_sendMessage
                  \<lparr>rpc_result = (\<lambda>n. True), receive_result = (\<lambda>n. []),
                   registered_groups = (\<lambda>j. False), now = 1700000000000,
                   toISOString = (\<lambda>t. Some ''2023-11-14T22:13:20.000Z''),
                   number_text = (\<lambda>t. ''1700000000000'')\<rparr> ch1 ''sig:+15550123'' ''B''));
          ch3 = snd (snd (signal_sendMessage
                  \<lparr>rpc_result = (\<lambda>n. True), receive_result = (\<lambda>n. []),
                   registered_groups = (\<lambda>j. False), now = 1700000000000,
                   toISOString = (\<lambda>t. Some ''2023-11-14T22:13:20.000Z''),
                   number_text = (\<lambda>t. ''1700000000000'')\<rparr> ch2 ''sig:+15550123'' ''C''))
      in fst (snd (signal_sendMessage
                  \<lparr>rpc_result = (\<lambda>n. True), receive_result = (\<lambda>n. []),
                   registered_groups = (\<lambda>j. False), now = 1700000000000,
                   toISOString = (\<lambda>t. Some ''2023-11-14T22:13:20.000Z''),
                   number_text = (\<lambda>t. ''1700000000000'')\<rparr> ch0 ''sig:+15550123'' ''A'')) = []
         \<and> fst (snd (signal_sendMessage
                  \<lparr>rpc_result = (\<lambda>n. True), receive_result = (\<lambda>n. []),
                   registered_groups = (\<lambda>j. False), now = 1700000000000,
                   toISOString = (\<lambda>t. Some ''2023-11-14T22:13:20.000Z''),
                   number_text = (\<lambda>t. ''1700000000000'')\<rparr> ch1 ''sig:+15550123'' ''B'')) = []
         \<and> fst (snd (signal_sendMessage
                  \<lparr>rpc_result = (\<lambda>n. True), receive_result = (\<lambda>n. []),
                   registered_groups = (\<lambda>j. False), now = 1700000000000,
                   toISOString = (\<lambda>t. Some ''2023-11-14T22:13:20.000Z''),
                   number_text = (\<lambda>t. ''1700000000000'')\<rparr> ch2 ''sig:+15550123'' ''C'')) = []
         \<and> filter is_send (fst (snd (signal_connect
                  \<lparr>rpc_result = (\<lambda>n. True), receive_result = (\<lambda>n. []),
                   registered_groups = (\<lambda>j. False), now = 1700000000000,
                   toISOString = (\<lambda>t. Some ''2023-11-14T22:13:20.000Z''),
                   number_text = (\<lambda>t. ''1700000000000'')\<rparr> ch3)))
           = [send_request (''sig:+15550123'', ''A''), send_request (''sig:+15550123'', ''B''),
              send_request (''sig:+15550123'', ''C'')]
         \<and> outgoingQueue (snd (snd (signal_connect
                  \<lparr>rpc_result = (\<lambda>n. True), receive_result = (\<lambda>n. []),
                   registered_groups = (\<lambda>j. False), now = 1700000000000,
                   toISOString = (\<lambda>t. Some ''2023-11-14T22:13:20.000Z''),
                   number_text = (\<lambda>t. ''1700000000000'')\<rparr> ch3))) = [])"
proof -
  let ?env = "\<lparr>rpc_result = (\<lambda>n. True), receive_result = (\<lambda>n. []),
       registered_groups = (\<lambda>j. False), now = 1700000000000,
       toISOString = (\<lambda>t. Some ''2023-11-14T22:13:20.000Z''),
       number_text = (\<lambda>t. ''1700000000000'')\<rparr>"
  let ?env2 = "\<lparr>rpc_result = (\<lambda>n. n < 3), receive_result = (\<lambda>n. []),
       registered_groups = (\<lambda>j. False), now = 1700000000000,
       toISOString = (\<lambda>t. Some ''2023-11-14T22:13:20.000Z''),
       number_text = (\<lambda>t. ''1700000000000'')\<rparr>"
  let ?q = "[(''sig:+15550123'', ''A''), (''sig:+15550123'', ''B''), (''sig:group:g1'', ''C'')]"
  let ?ch = "(new_SignalChannel ''+15550100'')\<lparr>outgoingQueue := ?q\<rparr>"
  have h: "rpc_result ?env (rpcId ?ch + 1) \<and> \<not> flushing ?ch
      \<and> (\<forall>i<length (outgoingQueue ?ch). rpc_result ?env (rpcId ?ch + 2 + i))"
    by (simp add: new_SignalChannel_def)
  have h0: "\<not> signal_connected (new_SignalChannel ''+15550100'')"
    by (simp add: new_SignalChannel_def)
  have h3: "\<forall>n. rpc_result ?env n"
    by simp
  have q: "outgoingQueue ?ch = ?q" "length (outgoingQueue ?ch) = 3"
    by simp_all
  have r: "map send_request ?q
      = [RpcSendRecipient ''+15550123'' ''A'', RpcSendRecipient ''+15550123'' ''B'',
         RpcSendGroup ''g1'' ''C'']"
    by (simp add: send_request_def delete_first_def)
  have "signal_connect ?env ?ch
      = (Inr (), RpcVersion # map send_request (outgoingQueue ?ch),
         ?ch\<lparr>signal_connected := True, pollTimer := True, outgoingQueue := [],
             rpcId := rpcId ?ch + 1 + length (outgoingQueue ?ch)\<rparr>)"
    using signal_offline_queue [where env = ?env and ch = ?ch, THEN conjunct2, THEN conjunct1] h
    by (rule mp)
  then have a: "filter is_send (fst (snd (signal_connect ?env ?ch)))
      = [RpcSendRecipient ''+15550123'' ''A'', RpcSendRecipient ''+15550123'' ''B'',
         RpcSendGroup ''g1'' ''C'']"
    using r by simp
  have "signal_sendMessage ?env (new_SignalChannel ''+15550100'') ''sig:+15550123'' ''A''
      = (Inr (), [], (new_SignalChannel ''+15550100'')
           \<lparr>outgoingQueue := outgoingQueue (new_SignalChannel ''+15550100'')
                @ [(''sig:+15550123'', ''A'')]\<rparr>)"
    using signal_offline_queue [where env = ?env and ch = "new_SignalChannel ''+15550100''"
        and jid = "''sig:+15550123''" and tx = "''A''", THEN conjunct1] h0
    by (rule mp)
  then have b: "outgoingQueue (snd (snd (signal_sendMessage ?env (new_SignalChannel ''+15550100'')
      ''sig:+15550123'' ''A''))) = [(''sig:+15550123'', ''A'')]"
    by (simp add: new_SignalChannel_def)
  have h2: "rpc_result ?env2 (rpcId ?ch + 1) \<and> \<not> flushing ?ch
      \<and> 1 < length (outgoingQueue ?ch)
      \<and> (\<forall>i<1. rpc_result ?env2 (rpcId ?ch + 2 + i))
      \<and> \<not> rpc_result ?env2 (rpcId ?ch + 2 + 1)"
    by (simp add: new_SignalChannel_def)
  have "signal_connect ?env2 ?ch
      = (Inr (), RpcVersion # map send_request (take (Suc 1) (outgoingQueue ?ch)),
         ?ch\<lparr>signal_connected := True, pollTimer := True,
             outgoingQueue := drop (Suc 1) (outgoingQueue ?ch), rpcId := rpcId ?ch + 2 + 1\<rparr>)"
    using signal_offline_queue [where env = ?env2 and ch = ?ch and j = 1,
        THEN conjunct2, THEN conjunct2, THEN conjunct1] h2
    by (rule mp)
  then have c: "signal_connect ?env2 ?ch
     = (Inr (),
        [RpcVersion, RpcSendRecipient ''+15550123'' ''A'', RpcSendRecipient ''+15550123'' ''B''],
        (new_SignalChannel ''+15550100'')
          \<lparr>signal_connected := True, pollTimer := True,
           outgoingQueue := [(''sig:group:g1'', ''C'')], rpcId := 3\<rparr>)"
    by (simp add: new_SignalChannel_def send_request_def delete_first_def)
  let ?senv = "\<lparr>registered = (\<lambda>j. True), onNewContact = None, registered_after = (\<lambda>j. True),
         users_info = (\<lambda>u. InfoThrows), slackTsToIso = (\<lambda>t. None),
         conversations_open = (\<lambda>u. Inr None), postMessage = (\<lambda>c t. None)\<rparr>"
  have hs: "resolveChannelId ?senv (new_SlackChannel None) ''slack:channel:C42''
        = (Inr ''C42'', [], new_SlackChannel None)"
    by (simp add: resolveChannelId_def channelPrefix_def new_SlackChannel_def truthy_def)
  have e: "fst (snd (slack_sendMessage ?senv (new_SlackChannel None) ''slack:channel:C42'' ''A''))
      = [] @ [PostMessage ''C42'' ''A'']"
    using signal_offline_queue [where senv = ?senv and sl = "new_SlackChannel None"
        and sjid = "''slack:channel:C42''" and cid = "''C42''" and calls = "[]"
        and sl' = "new_SlackChannel None" and tx = "''A''",
        THEN conjunct2, THEN conjunct2, THEN conjunct2, THEN conjunct2, THEN conjunct2,
        THEN conjunct2] hs
    by (rule mp)
  note t4 = signal_offline_queue [where env = ?env and acct = "''+15550100''"
      and jid = "''sig:+15550123''" and a = "''A''" and b = "''B''" and c = "''C''",
      THEN conjunct2, THEN conjunct2, THEN conjunct2, THEN conjunct1]
  have d: "let ch0 = new_SignalChannel ''+15550100'';
          ch1 = snd (snd (signal_sendMessage ?env ch0 ''sig:+15550123'' ''A''));
          ch2 = snd (snd (signal_sendMessage ?env ch1 ''sig:+15550123'' ''B''));
          ch3 = snd (snd (signal_sendMessage ?env ch2 ''sig:+15550123'' ''C''))
      in fst (snd (signal_sendMessage ?env ch0 ''sig:+15550123'' ''A'')) = []
         \<and> fst (snd (signal_sendMessage ?env ch1 ''sig:+15550123'' ''B'')) = []
         \<and> fst (snd (signal_sendMessage ?env ch2 ''sig:+15550123'' ''C'')) = []
         \<and> filter is_send (fst (snd (signal_connect ?env ch3)))
           = [send_request (''sig:+15550123'', ''A''), send_request (''sig:+15550123'', ''B''),
              send_request (''sig:+15550123'', ''C'')]
         \<and> outgoingQueue (snd (snd (signal_connect ?env ch3))) = []"
    using t4 h3 by (rule mp)
  show ?thesis
    using a b c e d by (intro conjI)
qed

text \<open>
  C3 as stated fails on Slack, which has no queue: \<open>sendMessage\<close> on a channel that is not
  connected posts the message at once.
\<close>

theorem slack_send_not_queued_counterexample:
  "\<not> slack_isConnected (new_SlackChannel None)
   \<and> fst (snd (slack_sendMessage
        \<lparr>registered = (\<lambda>j. True), onNewContact = None, registered_after = (\<lambda>j. True),
         users_info = (\<lambda>u. InfoThrows), slackTsToIso = (\<lambda>t. None),
         conversations_open = (\<lambda>u. Inr None), postMessage = (\<lambda>c t. None)\<rparr>
        (new_SlackChannel None) ''slack:channel:C42'' ''A''))
     = [PostMessage ''C42'' ''A'']"
  by (simp add: slack_isConnected_def new_SlackChannel_def slack_sendMessage_def
      resolveChannelId_def channelPrefix_def truthy_def)

text \<open>
  C4 (as amended). On the Signal channel \<open>sendMessage\<close> never throws, and a send that
  fails on a connected channel appends the pair to the queue. On the Slack channel a
  \<open>chat.postMessage\<close> that fails is thrown on to the caller of \<open>sendMessage\<close>, and nothing
  is queued.
\<close>

theorem send_failure_handling:
  "fst (signal_sendMessage env ch jid tx) = Inr ()
   \<and> (signal_connected ch \<and> \<not> rpc_result env (rpcId ch + 1)
      \<longrightarrow> signal_sendMessage env ch jid tx
          = (Inr (), [send_request (jid, tx)],
             ch\<lparr>rpcId := rpcId ch + 1, outgoingQueue := outgoingQueue ch @ [(jid, tx)]\<rparr>))
   \<and> (resolveChannelId senv sl sjid = (Inr c, calls, sl') \<and> postMessage senv c tx = Some err
      \<longrightarrow> slack_sendMessage senv sl sjid tx = (Inl err, calls @ [PostMessage c tx], sl'))"
proof (intro conjI impI)
  show "fst (signal_sendMessage env ch jid tx) = Inr ()"
    by (rule signal_sendMessage_returns)
next
  assume "signal_connected ch \<and> \<not> rpc_result env (rpcId ch + 1)"
  then show "signal_sendMessage env ch jid tx
          = (Inr (), [send_request (jid, tx)],
             ch\<lparr>rpcId := rpcId ch + 1, outgoingQueue := outgoingQueue ch @ [(jid, tx)]\<rparr>)"
    by (simp add: signal_sendMessage_def sendViaRpc_def rpc_def Let_def)
next
  assume "resolveChannelId senv sl sjid = (Inr c, calls, sl') \<and> postMessage senv c tx = Some err"
  then show "slack_sendMessage senv sl sjid tx = (Inl err, calls @ [PostMessage c tx], sl')"
    by (simp add: slack_sendMessage_def)
qed

theorem send_failure_handling_witness:
  "signal_sendMessage
      \<lparr>rpc_result = (\<lambda>n. False), receive_result = (\<lambda>n. []),
       registered_groups = (\<lambda>j. False), now = 1700000000000,
       toISOString = (\<lambda>t. Some ''2023-11-14T22:13:20.000Z''),
       number_text = (\<lambda>t. ''1700000000000'')\<rparr>
      ((new_SignalChannel ''+15550100'')\<lparr>signal_connected := True\<rparr>) ''sig:+15550123'' ''A''
     = (Inr (), [RpcSendRecipient ''+15550123'' ''A''],
        (new_SignalChannel ''+15550100'')
          \<lparr>signal_connected := True, rpcId := 1, outgoingQueue := [(''sig:+15550123'', ''A'')]\<rparr>)
   \<and> slack_sendMessage
        \<lparr>registered = (\<lambda>j. True), onNewContact = None, registered_after = (\<lambda>j. True),
         users_info = (\<lambda>u. InfoThrows), slackTsToIso = (\<lambda>t. None),
         conversations_open = (\<lambda>u. Inr None),
         postMessage = (\<lambda>c t. Some (JsError ''channel_not_found''))\<rparr>
        (new_SlackChannel None) ''slack:channel:C42'' ''A''
     = (Inl (JsError ''channel_not_found''), [] @ [PostMessage ''C42'' ''A''], new_SlackChannel None)"
proof -
  let ?env = "\<lparr>rpc_result = (\<lambda>n. False), receive_result = (\<lambda>n. []),
       registered_groups = (\<lambda>j. False), now = 1700000000000,
       toISOString = (\<lambda>t. Some ''2023-11-14T22:13:20.000Z''),
       number_text = (\<lambda>t. ''1700000000000'')\<rparr>"
  let ?ch = "(new_SignalChannel ''+15550100'')\<lparr>signal_connected := True\<rparr>"
  let ?senv = "\<lparr>registered = (\<lambda>j. True), onNewContact = None, registered_after = (\<lambda>j. True),
         users_info = (\<lambda>u. InfoThrows), slackTsToIso = (\<lambda>t. None),
         conversations_open = (\<lambda>u. Inr None),
         postMessage = (\<lambda>c t. Some (JsError ''channel_not_found''))\<rparr>"
  have h: "signal_connected ?ch \<and> \<not> rpc_result ?env (rpcId ?ch + 1)"
    by simp
  have r: "send_request (''sig:+15550123'', ''A'') = RpcSendRecipient ''+15550123'' ''A''"
    by (simp add: send_request_def delete_first_def)
  have hs: "resolveChannelId ?senv (new_SlackChannel None) ''slack:channel:C42''
        = (Inr ''C42'', [], new_SlackChannel None)
      \<and> postMessage ?senv ''C42'' ''A'' = Some (JsError ''channel_not_found'')"
    by (simp add: resolveChannelId_def channelPrefix_def new_SlackChannel_def truthy_def)
  have "signal_sendMessage ?env ?ch ''sig:+15550123'' ''A''
      = (Inr (), [send_request (''sig:+15550123'', ''A'')],
         ?ch\<lparr>rpcId := rpcId ?ch + 1,
             outgoingQueue := outgoingQueue ?ch @ [(''sig:+15550123'', ''A'')]\<rparr>)"
    using send_failure_handling [where env = ?env and ch = ?ch and jid = "''sig:+15550123''"
        and tx = "''A''"] h by blast
  then have a: "signal_sendMessage ?env ?ch ''sig:+15550123'' ''A''
     = (Inr (), [RpcSendRecipient ''+15550123'' ''A''],
        (new_SignalChannel ''+15550100'')
          \<lparr>signal_connected := True, rpcId := 1, outgoingQueue := [(''sig:+15550123'', ''A'')]\<rparr>)"
    by (simp add: r new_SignalChannel_def)
  have b: "slack_sendMessage ?senv (new_SlackChannel None) ''slack:channel:C42'' ''A''
     = (Inl (JsError ''channel_not_found''), [] @ [PostMessage ''C42'' ''A''], new_SlackChannel None)"
    using send_failure_handling [where senv = ?senv and sl = "new_SlackChannel None"
        and sjid = "''slack:channel:C42''" and c = "''C42''" and calls = "[]"
        and sl' = "new_SlackChannel None" and tx = "''A''"
        and err = "JsError ''channel_not_found''"] hs
    by blast
  from a b show ?thesis by blast
qed

text \<open>
  C4 as stated fails on Slack: when \<open>chat.postMessage\<close> fails, \<open>sendMessage\<close> throws.
\<close>

theorem slack_send_raises_counterexample:
  "fst (slack_sendMessage
        \<lparr>registered = (\<lambda>j. True), onNewContact = None, registered_after = (\<lambda>j. True),
         users_info = (\<lambda>u. InfoThrows), slackTsToIso = (\<lambda>t. None),
         conversations_open = (\<lambda>u. Inr None),
         postMessage = (\<lambda>c t. Some (JsError ''channel_not_found''))\<rparr>
        ((new_SlackChannel None)\<lparr>slack_connected := True\<rparr>) ''slack:channel:C42'' ''A'')
     = Inl (JsError ''channel_not_found'')"
  by (simp add: new_SlackChannel_def slack_sendMessage_def resolveChannelId_def
      channelPrefix_def truthy_def)

section \<open>Properties of the mail-to-bookmark poller\<close>


lemma relay_loop_failed:
  "fst (relay_loop reply urls) \<longleftrightarrow> \<not> list_all (\<lambda>u. bookmarkViaRelay (reply u)) urls"
  by (induction urls) (auto split: prod.splits)

lemma relay_loop_posts:
  "snd (relay_loop reply urls) =
     map RelayPost (takeWhile (\<lambda>u. bookmarkViaRelay (reply u)) urls
                    @ take 1 (dropWhile (\<lambda>u. bookmarkViaRelay (reply u)) urls))"
  by (induction urls) (auto split: prod.splits)

lemma process_message_cases:
  "process_message decode mb (msg, env) =
     (case get_result env of
        None \<Rightarrow> (mb, [GmailGet (gog_id msg)])
      | Some detail \<Rightarrow>
          (let urls = extractUrls (extractBodyText decode detail);
               ok = (\<lambda>u. bookmarkViaRelay (relay_result env u));
               posts = map RelayPost (takeWhile ok urls @ take 1 (dropWhile ok urls))
           in if \<not> list_all ok urls then (mb, GmailGet (gog_id msg) # posts)
              else if modify_succeeds env
                then (mb\<lparr>processed := insert (threadId msg) (processed mb),
                         inbox := inbox mb - {threadId msg}\<rparr>,
                      GmailGet (gog_id msg) # posts @ [ThreadModify (threadId msg)])
                else (mb, GmailGet (gog_id msg) # posts @ [ThreadModify (threadId msg)])))"
proof (cases "get_result env")
  case None
  then show ?thesis by (simp add: process_message_def)
next
  case (Some detail)
  obtain f posts where r: "relay_loop (relay_result env) (extractUrls (extractBodyText decode detail)) = (f, posts)"
    by (cases "relay_loop (relay_result env) (extractUrls (extractBodyText decode detail))") auto
  from r have f: "f \<longleftrightarrow> \<not> list_all (\<lambda>u. bookmarkViaRelay (relay_result env u)) (extractUrls (extractBodyText decode detail))"
    using relay_loop_failed[of "relay_result env" "extractUrls (extractBodyText decode detail)"] by simp
  from r have p: "posts = map RelayPost
       (takeWhile (\<lambda>u. bookmarkViaRelay (relay_result env u)) (extractUrls (extractBodyText decode detail))
        @ take 1 (dropWhile (\<lambda>u. bookmarkViaRelay (relay_result env u)) (extractUrls (extractBodyText decode detail))))"
    using relay_loop_posts[of "relay_result env" "extractUrls (extractBodyText decode detail)"] by simp
  show ?thesis
    using Some r f by (simp add: process_message_def Let_def p)
qed

lemma processed_mono_step:
  "processed mb \<subseteq> processed (fst (process_message decode mb m))"
  by (cases m) (auto simp: process_message_cases Let_def split: option.splits)

lemma processed_mono:
  "processed mb \<subseteq> processed (fst (process_messages decode mb ms))"
proof (induction ms arbitrary: mb)
  case Nil
  then show ?case by simp
next
  case (Cons m ms)
  obtain mb' acts where s: "process_message decode mb m = (mb', acts)"
    by (cases "process_message decode mb m") auto
  have "processed mb \<subseteq> processed mb'"
    using processed_mono_step[of mb decode m] s by simp
  moreover have "processed mb' \<subseteq> processed (fst (process_messages decode mb' ms))"
    by (rule Cons.IH)
  ultimately show ?case using s by (auto split: prod.splits)
qed

lemma process_messages_append:
  "process_messages decode mb (xs @ ys) =
     (case process_messages decode mb xs of
        (mb', acts) \<Rightarrow> (case process_messages decode mb' ys of (mb'', acts') \<Rightarrow> (mb'', acts @ acts')))"
  by (induction xs arbitrary: mb) (auto split: prod.splits)

lemma labelled_in_batch:
  assumes "get_result env = Some detail"
    and "list_all (\<lambda>u. bookmarkViaRelay (relay_result env u)) (extractUrls (extractBodyText decode detail))"
    and "modify_succeeds env"
  shows "threadId msg \<in> processed (fst (process_messages decode mb (before @ (msg, env) # after)))"
proof -
  obtain mb1 a1 where b: "process_messages decode mb before = (mb1, a1)"
    by (cases "process_messages decode mb before") auto
  obtain mb2 a2 where m: "process_message decode mb1 (msg, env) = (mb2, a2)"
    by (cases "process_message decode mb1 (msg, env)") auto
  have "threadId msg \<in> processed mb2"
    using m assms by (auto simp: process_message_cases Let_def)
  moreover have "processed mb2 \<subseteq> processed (fst (process_messages decode mb2 after))"
    by (rule processed_mono)
  ultimately show ?thesis
    using b m by (auto simp: process_messages_append split: prod.splits)
qed

lemma inbox_anti_step:
  "inbox (fst (process_message decode mb m)) \<subseteq> inbox mb"
  by (cases m) (auto simp: process_message_cases Let_def split: option.splits)

lemma inbox_anti:
  "inbox (fst (process_messages decode mb ms)) \<subseteq> inbox mb"
proof (induction ms arbitrary: mb)
  case Nil
  then show ?case by simp
next
  case (Cons m ms)
  obtain mb' acts where s: "process_message decode mb m = (mb', acts)"
    by (cases "process_message decode mb m") auto
  have "inbox mb' \<subseteq> inbox mb"
    using inbox_anti_step[of decode mb m] s by simp
  moreover have "inbox (fst (process_messages decode mb' ms)) \<subseteq> inbox mb'"
    by (rule Cons.IH)
  ultimately show ?case using s by (auto split: prod.splits)
qed

lemma archived_in_batch:
  assumes "get_result env = Some detail"
    and "list_all (\<lambda>u. bookmarkViaRelay (relay_result env u)) (extractUrls (extractBodyText decode detail))"
    and "modify_succeeds env"
  shows "threadId msg \<notin> inbox (fst (process_messages decode mb (before @ (msg, env) # after)))"
proof -
  obtain mb1 a1 where b: "process_messages decode mb before = (mb1, a1)"
    by (cases "process_messages decode mb before") auto
  obtain mb2 a2 where m: "process_message decode mb1 (msg, env) = (mb2, a2)"
    by (cases "process_message decode mb1 (msg, env)") auto
  have "threadId msg \<notin> inbox mb2"
    using m assms by (auto simp: process_message_cases Let_def)
  moreover have "inbox (fst (process_messages decode mb2 after)) \<subseteq> inbox mb2"
    by (rule inbox_anti)
  ultimately show ?thesis
    using b m by (auto simp: process_messages_append split: prod.splits)
qed

lemma processed_bound_step:
  "processed (fst (process_message decode mb m)) \<subseteq> insert (threadId (fst m)) (processed mb)"
  by (cases m) (auto simp: process_message_cases Let_def split: option.splits)

lemma processed_bound:
  "processed (fst (process_messages decode mb ms)) \<subseteq> processed mb \<union> (\<lambda>m. threadId (fst m)) ` set ms"
proof (induction ms arbitrary: mb)
  case Nil
  then show ?case by simp
next
  case (Cons m ms)
  obtain mb' acts where s: "process_message decode mb m = (mb', acts)"
    by (cases "process_message decode mb m") auto
  have a: "processed mb' \<subseteq> insert (threadId (fst m)) (processed mb)"
    using processed_bound_step[of decode mb m] s by simp
  have b: "processed (fst (process_messages decode mb' ms))
      \<subseteq> processed mb' \<union> (\<lambda>m. threadId (fst m)) ` set ms"
    by (rule Cons.IH)
  have "fst (process_messages decode mb (m # ms)) = fst (process_messages decode mb' ms)"
    using s by (simp split: prod.splits)
  with a b show ?case by auto
qed

lemma unlabelled_in_batch:
  fixes msg :: gog_message and mb :: mailbox
    and before after :: "(gog_message \<times> message_env) list"
  assumes "get_result env = Some d"
    and "\<not> list_all (\<lambda>u. bookmarkViaRelay (relay_result env u)) (extractUrls (extractBodyText decode d))"
    and "threadId msg \<notin> processed mb"
    and "\<forall>m\<in>set (before @ after). threadId (fst m) \<noteq> threadId msg"
  shows "threadId msg \<notin> processed (fst (process_messages decode mb (before @ (msg, env) # after)))"
proof -
  obtain mb1 a1 where b: "process_messages decode mb before = (mb1, a1)"
    by (cases "process_messages decode mb before") auto
  have "processed mb1 \<subseteq> processed mb \<union> (\<lambda>m. threadId (fst m)) ` set before"
    using processed_bound[of decode mb before] b by simp
  with assms(3,4) have n1: "threadId msg \<notin> processed mb1" by force
  obtain a2 where m: "process_message decode mb1 (msg, env) = (mb1, a2)"
    using assms(1,2) by (simp add: process_message_cases Let_def)
  obtain mb3 a3 where c: "process_messages decode mb1 after = (mb3, a3)"
    by (cases "process_messages decode mb1 after") auto
  have "processed mb3 \<subseteq> processed mb1 \<union> (\<lambda>m. threadId (fst m)) ` set after"
    using processed_bound[of decode mb1 after] c by simp
  with n1 assms(4) have "threadId msg \<notin> processed mb3" by force
  moreover have "fst (process_messages decode mb (before @ (msg, env) # after)) = mb3"
    using b c m by (simp add: process_messages_append)
  ultimately show ?thesis by simp
qed

lemma bookmarkViaRelay_iff: "bookmarkViaRelay r \<longleftrightarrow> r \<noteq> Unreachable"
  by (cases r) simp_all

lemma relays_then_label:
  "((ThreadModify t \<in> set (snd (process_message decode mb (msg, env)))
       \<or> fst (process_message decode mb (msg, env)) \<noteq> mb)
      \<longrightarrow> (\<exists>detail. get_result env = Some detail
            \<and> list_all (\<lambda>u. bookmarkViaRelay (relay_result env u))
                 (extractUrls (extractBodyText decode detail))))
   \<and> (get_result env = Some d
        \<and> \<not> list_all (\<lambda>u. bookmarkViaRelay (relay_result env u)) (extractUrls (extractBodyText decode d))
      \<longrightarrow> process_message decode mb (msg, env)
          = (mb, GmailGet (gog_id msg) #
                 map RelayPost
                   (takeWhile (\<lambda>u. bookmarkViaRelay (relay_result env u)) (extractUrls (extractBodyText decode d))
                    @ take 1 (dropWhile (\<lambda>u. bookmarkViaRelay (relay_result env u))
                                (extractUrls (extractBodyText decode d))))))
   \<and> (get_result env = Some d
        \<and> list_all (\<lambda>u. bookmarkViaRelay (relay_result env u)) (extractUrls (extractBodyText decode d))
        \<and> modify_succeeds env
      \<longrightarrow> threadId msg \<in> processed (fst (pollEmailIntake decode mb (Messages (before @ (msg, env) # after))))
          \<and> threadId msg \<notin> inbox (fst (pollEmailIntake decode mb (Messages (before @ (msg, env) # after)))))
   \<and> (get_result env = Some d
        \<and> \<not> list_all (\<lambda>u. bookmarkViaRelay (relay_result env u)) (extractUrls (extractBodyText decode d))
        \<and> threadId msg \<notin> processed mb
        \<and> (\<forall>m\<in>set (before @ after). threadId (fst m) \<noteq> threadId msg)
      \<longrightarrow> threadId msg \<notin> processed (fst (pollEmailIntake decode mb (Messages (before @ (msg, env) # after)))))"
proof (intro conjI impI)
  assume "get_result env = Some d
        \<and> \<not> list_all (\<lambda>u. bookmarkViaRelay (relay_result env u)) (extractUrls (extractBodyText decode d))
        \<and> threadId msg \<notin> processed mb
        \<and> (\<forall>m\<in>set (before @ after). threadId (fst m) \<noteq> threadId msg)"
  then show "threadId msg \<notin> processed (fst (pollEmailIntake decode mb (Messages (before @ (msg, env) # after))))"
    using unlabelled_in_batch[of env d decode msg mb before after] by (simp add: pollEmailIntake_def)
next
  assume "ThreadModify t \<in> set (snd (process_message decode mb (msg, env)))
       \<or> fst (process_message decode mb (msg, env)) \<noteq> mb"
  then show "\<exists>detail. get_result env = Some detail
            \<and> list_all (\<lambda>u. bookmarkViaRelay (relay_result env u))
                 (extractUrls (extractBodyText decode detail))"
    by (auto simp: process_message_cases Let_def split: option.splits if_splits)
next
  assume "get_result env = Some d
        \<and> \<not> list_all (\<lambda>u. bookmarkViaRelay (relay_result env u)) (extractUrls (extractBodyText decode d))"
  then show "process_message decode mb (msg, env)
          = (mb, GmailGet (gog_id msg) #
                 map RelayPost
                   (takeWhile (\<lambda>u. bookmarkViaRelay (relay_result env u)) (extractUrls (extractBodyText decode d))
                    @ take 1 (dropWhile (\<lambda>u. bookmarkViaRelay (relay_result env u))
                                (extractUrls (extractBodyText decode d)))))"
    by (simp add: process_message_cases Let_def)
next
  assume a: "get_result env = Some d
        \<and> list_all (\<lambda>u. bookmarkViaRelay (relay_result env u)) (extractUrls (extractBodyText decode d))
        \<and> modify_succeeds env"
  then show "threadId msg \<in> processed (fst (pollEmailIntake decode mb (Messages (before @ (msg, env) # after))))"
    using labelled_in_batch[of env d decode msg mb before after] by (simp add: pollEmailIntake_def)
  from a show "threadId msg \<notin> inbox (fst (pollEmailIntake decode mb (Messages (before @ (msg, env) # after))))"
    using archived_in_batch[of env d decode msg mb before after] by (simp add: pollEmailIntake_def)
qed

text \<open>
  C6 (as amended). While a message is processed, the label command is issued or the
  mailbox changed only if the message was fetched and every relay call for its URLs was
  answered with JSON (\<open>bookmarkViaRelay\<close> returned true; an answer that carries an \<open>error\<close>
  field counts). When a relay call is not answered with JSON, the POSTs made are those up
  to and with that one, no label command is issued and the mailbox is as before; when
  moreover no other message of the batch is in the thread of the message, the thread is
  still without the label at the end of the poll, so the message is found again by the
  next poll. A message of the batch that is fetched, whose relay calls are all answered
  and whose label command succeeds has its thread labelled and out of the inbox at the end
  of the poll, whatever happens to the messages before and behind it.
\<close>

theorem label_after_all_relays:
  "((ThreadModify t \<in> set (snd (process_message decode mb (msg, env)))
       \<or> fst (process_message decode mb (msg, env)) \<noteq> mb)
      \<longrightarrow> (\<exists>detail. get_result env = Some detail
            \<and> list_all (\<lambda>u. relay_result env u \<noteq> Unreachable)
                 (extractUrls (extractBodyText decode detail))))
   \<and> (get_result env = Some d
        \<and> \<not> list_all (\<lambda>u. relay_result env u \<noteq> Unreachable) (extractUrls (extractBodyText decode d))
      \<longrightarrow> process_message decode mb (msg, env)
          = (mb, GmailGet (gog_id msg) #
                 map RelayPost
                   (takeWhile (\<lambda>u. relay_result env u \<noteq> Unreachable) (extractUrls (extractBodyText decode d))
                    @ take 1 (dropWhile (\<lambda>u. relay_result env u \<noteq> Unreachable)
                                (extractUrls (extractBodyText decode d))))))
   \<and> (get_result env = Some d
        \<and> list_all (\<lambda>u. relay_result env u \<noteq> Unreachable) (extractUrls (extractBodyText decode d))
        \<and> modify_succeeds env
      \<longrightarrow> threadId msg \<in> processed (fst (pollEmailIntake decode mb (Messages (before @ (msg, env) # after))))
          \<and> threadId msg \<notin> inbox (fst (pollEmailIntake decode mb (Messages (before @ (msg, env) # after)))))
   \<and> (get_result env = Some d
        \<and> \<not> list_all (\<lambda>u. relay_result env u \<noteq> Unreachable) (extractUrls (extractBodyText decode d))
        \<and> threadId msg \<notin> processed mb
        \<and> (\<forall>m\<in>set (before @ after). threadId (fst m) \<noteq> threadId msg)
      \<longrightarrow> threadId msg \<notin> processed (fst (pollEmailIntake decode mb (Messages (before @ (msg, env) # after)))))"
  using relays_then_label [of t decode mb msg env d before after]
  by (simp only: bookmarkViaRelay_iff)

theorem label_after_all_relays_witness:
  "process_message (\<lambda>s. s) \<lparr>processed = {}, inbox = {''t1'', ''t2''}\<rparr>
      (\<lparr>gog_id = ''m1'', threadId = ''t1'', subject = None\<rparr>,
       \<lparr>get_result = Some \<lparr>detail_body = Some ''read https://example.org/article-1'',
                            detail_snippet = None, detail_payload = None\<rparr>,
        relay_result = (\<lambda>u. Unreachable), modify_succeeds = True\<rparr>)
     = (\<lparr>processed = {}, inbox = {''t1'', ''t2''}\<rparr>,
        [GmailGet ''m1'', RelayPost ''https://example.org/article-1''])
   \<and> ''t2'' \<in> processed (fst (pollEmailIntake (\<lambda>s. s) \<lparr>processed = {}, inbox = {''t1'', ''t2''}\<rparr>
        (Messages ([(\<lparr>gog_id = ''m1'', threadId = ''t1'', subject = None\<rparr>,
           \<lparr>get_result = Some \<lparr>detail_body = Some ''read https://example.org/article-1'',
                            detail_snippet = None, detail_payload = None\<rparr>,
            relay_result = (\<lambda>u. Unreachable), modify_succeeds = True\<rparr>)]
          @ (\<lparr>gog_id = ''m2'', threadId = ''t2'', subject = None\<rparr>,
           \<lparr>get_result = Some \<lparr>detail_body = Some ''read https://example.org/article-2'',
                            detail_snippet = None, detail_payload = None\<rparr>,
            relay_result = (\<lambda>u. Replied False), modify_succeeds = True\<rparr>) # []))))
   \<and> ''t1'' \<notin> processed (fst (pollEmailIntake (\<lambda>s. s) \<lparr>processed = {}, inbox = {''t1'', ''t2''}\<rparr>
        (Messages ([]
          @ (\<lparr>gog_id = ''m1'', threadId = ''t1'', subject = None\<rparr>,
           \<lparr>get_result = Some \<lparr>detail_body = Some ''read https://example.org/article-1'',
                            detail_snippet = None, detail_payload = None\<rparr>,
            relay_result = (\<lambda>u. Unreachable), modify_succeeds = True\<rparr>)
          # [(\<lparr>gog_id = ''m2'', threadId = ''t2'', subject = None\<rparr>,
           \<lparr>get_result = Some \<lparr>detail_body = Some ''read https://example.org/article-2'',
                            detail_snippet = None, detail_payload = None\<rparr>,
            relay_result = (\<lambda>u. Replied False), modify_succeeds = True\<rparr>)]))))
   \<and> ThreadModify ''t2'' \<in> set (snd (process_message (\<lambda>s. s)
        \<lparr>processed = {}, inbox = {''t1'', ''t2''}\<rparr>
        (\<lparr>gog_id = ''m2'', threadId = ''t2'', subject = None\<rparr>,
         \<lparr>get_result = Some \<lparr>detail_body = Some ''read https://example.org/article-2'',
                            detail_snippet = None, detail_payload = None\<rparr>,
          relay_result = (\<lambda>u. Replied False), modify_succeeds = True\<rparr>)))
   \<and> list_all (\<lambda>u. Replied False \<noteq> Unreachable)
        (extractUrls ''read https://example.org/article-2'')"
proof -
  let ?mb = "\<lparr>processed = {}, inbox = {''t1'', ''t2''}\<rparr>"
  let ?d1 = "\<lparr>detail_body = Some ''read https://example.org/article-1'',
              detail_snippet = None, detail_payload = None\<rparr>"
  let ?d2 = "\<lparr>detail_body = Some ''read https://example.org/article-2'',
              detail_snippet = None, detail_payload = None\<rparr>"
  let ?g1 = "\<lparr>gog_id = ''m1'', threadId = ''t1'', subject = None\<rparr>"
  let ?g2 = "\<lparr>gog_id = ''m2'', threadId = ''t2'', subject = None\<rparr>"
  let ?e1 = "\<lparr>get_result = Some ?d1, relay_result = (\<lambda>u. Unreachable), modify_succeeds = True\<rparr>"
  let ?e2 = "\<lparr>get_result = Some ?d2, relay_result = (\<lambda>u. Replied False), modify_succeeds = True\<rparr>"
  have b1: "extractBodyText (\<lambda>s. s) ?d1 = ''read https://example.org/article-1''"
    by (simp add: extractBodyText_def truthy_def)
  have b2: "extractBodyText (\<lambda>s. s) ?d2 = ''read https://example.org/article-2''"
    by (simp add: extractBodyText_def truthy_def)
  have u1: "extractUrls ''read https://example.org/article-1'' = [''https://example.org/article-1'']"
    by code_simp
  have u2: "extractUrls ''read https://example.org/article-2'' = [''https://example.org/article-2'']"
    by code_simp
  have a: "process_message (\<lambda>s. s) ?mb (?g1, ?e1)
      = (?mb, [GmailGet ''m1'', RelayPost ''https://example.org/article-1''])"
    using label_after_all_relays [where decode = "\<lambda>s. s" and mb = ?mb and msg = ?g1
        and env = ?e1 and d = ?d1]
    by (simp add: b1 u1)
  have b: "''t2'' \<in> processed (fst (pollEmailIntake (\<lambda>s. s) ?mb
      (Messages ([(?g1, ?e1)] @ (?g2, ?e2) # []))))"
    using label_after_all_relays [where decode = "\<lambda>s. s" and mb = ?mb and msg = ?g2
        and env = ?e2 and d = ?d2 and before = "[(?g1, ?e1)]" and after = "[]"]
    by (simp add: b2 u2)
  have c: "''t1'' \<notin> processed (fst (pollEmailIntake (\<lambda>s. s) ?mb
      (Messages ([] @ (?g1, ?e1) # [(?g2, ?e2)]))))"
    using label_after_all_relays [where decode = "\<lambda>s. s" and mb = ?mb and msg = ?g1
        and env = ?e1 and d = ?d1 and before = "[]" and after = "[(?g2, ?e2)]"]
    by (simp add: b1 u1)
  have m: "ThreadModify ''t2'' \<in> set (snd (process_message (\<lambda>s. s) ?mb (?g2, ?e2)))"
    by (simp add: process_message_cases Let_def b2 u2)
  have "\<exists>detail. get_result ?e2 = Some detail
      \<and> list_all (\<lambda>u. relay_result ?e2 u \<noteq> Unreachable)
           (extractUrls (extractBodyText (\<lambda>s. s) detail))"
    using label_after_all_relays [where decode = "\<lambda>s. s" and mb = ?mb and msg = ?g2
        and env = ?e2 and t = "''t2''"] m
    by blast
  then have d: "list_all (\<lambda>u. Replied False \<noteq> Unreachable)
      (extractUrls ''read https://example.org/article-2'')"
    by (simp add: b2)
  from a b c m d show ?thesis by blast
qed

text \<open>
  C6 as stated fails in two ways. A relay that answers with an error is taken for a
  success: the thread of the message is labelled. And a message whose relay call failed
  is labelled all the same when a later message of the batch is in its thread and
  succeeds.
\<close>

theorem label_despite_failure_counterexample:
  "processed (fst (process_message (\<lambda>s. s) \<lparr>processed = {}, inbox = {''t1''}\<rparr>
      (\<lparr>gog_id = ''m1'', threadId = ''t1'', subject = None\<rparr>,
       \<lparr>get_result = Some \<lparr>detail_body = Some ''read https://example.org/article-1'',
                            detail_snippet = None, detail_payload = None\<rparr>,
        relay_result = (\<lambda>u. Replied True), modify_succeeds = True\<rparr>)))
     = {''t1''}
   \<and> processed (fst (pollEmailIntake (\<lambda>s. s) \<lparr>processed = {}, inbox = {''t1''}\<rparr>
        (Messages
          [(\<lparr>gog_id = ''m1'', threadId = ''t1'', subject = None\<rparr>,
            \<lparr>get_result = Some \<lparr>detail_body = Some ''read https://example.org/article-1'',
                                 detail_snippet = None, detail_payload = None\<rparr>,
             relay_result = (\<lambda>u. Unreachable), modify_succeeds = True\<rparr>),
           (\<lparr>gog_id = ''m2'', threadId = ''t1'', subject = None\<rparr>,
            \<lparr>get_result = Some \<lparr>detail_body = Some ''read https://example.org/article-2'',
                                 detail_snippet = None, detail_payload = None\<rparr>,
             relay_result = (\<lambda>u. Replied False), modify_succeeds = True\<rparr>)])))
     = {''t1''}"
proof -
  let ?d1 = "\<lparr>detail_body = Some ''read https://example.org/article-1'',
              detail_snippet = None, detail_payload = None\<rparr>"
  let ?d2 = "\<lparr>detail_body = Some ''read https://example.org/article-2'',
              detail_snippet = None, detail_payload = None\<rparr>"
  have b1: "extractBodyText (\<lambda>s. s) ?d1 = ''read https://example.org/article-1''"
    by (simp add: extractBodyText_def truthy_def)
  have b2: "extractBodyText (\<lambda>s. s) ?d2 = ''read https://example.org/article-2''"
    by (simp add: extractBodyText_def truthy_def)
  have u1: "extractUrls ''read https://example.org/article-1'' = [''https://example.org/article-1'']"
    by code_simp
  have u2: "extractUrls ''read https://example.org/article-2'' = [''https://example.org/article-2'']"
    by code_simp
  show ?thesis
    by (simp add: pollEmailIntake_def process_message_cases Let_def b1 b2 u1 u2)
qed

end
